theory Spec2Isabelle
  imports Main
begin

section \<open>Text, numbers and exceptions of the run time\<close>

text \<open>
  A Python \<open>str\<close> is modelled as a \<open>string\<close>, one \<open>char\<close> per code point below 256.
  Exceptions are values; a function that can raise returns \<open>exn + 'a\<close> with \<open>Inl\<close> the
  exception. Each constructor keeps the data that determines the exception, not the
  message text; \<open>class_of\<close> gives the Python class.
\<close>

datatype exn =
    InvalidIssueUrl string
  | InvalidLiteral string
  | KeyError string
  | JoinTypeError nat
  | ItemTypeError
  | AttributeError string string
  | ValidationError "string list"
  | TimeoutExpired "string list" int
  | Raised string string
  | Interrupt string

text \<open>
  \<open>InvalidIssueUrl u\<close> is \<^verbatim>\<open>ValueError(f"Invalid GitHub issue URL: {u}")\<close>;
  \<open>InvalidLiteral s\<close> is the \<^verbatim>\<open>ValueError\<close> of \<^verbatim>\<open>int(s)\<close>;
  \<open>KeyError k\<close> a subscript with a missing key;
  \<open>JoinTypeError i\<close> the \<^verbatim>\<open>TypeError\<close> of \<^verbatim>\<open>str.join\<close> whose item \<open>i\<close> is not a \<open>str\<close>;
  \<open>ItemTypeError\<close> the \<^verbatim>\<open>TypeError\<close> of a membership test, an item assignment or an
  unpacking with \<^verbatim>\<open>**\<close> on a value that is not a mapping;
  \<open>AttributeError c a\<close> a read of attribute \<open>a\<close> on an object of class \<open>c\<close> that has none;
  \<open>ValidationError locs\<close> the settings schema rejecting the fields at \<open>locs\<close>;
  \<open>TimeoutExpired cmd t\<close> is \<^verbatim>\<open>subprocess.TimeoutExpired\<close>;
  \<open>Raised c m\<close> is any other exception deriving from \<^verbatim>\<open>Exception\<close> that an external
  collaborator raises (class name and message);
  \<open>Interrupt c\<close> is one that derives from \<^verbatim>\<open>BaseException\<close> only
  (\<^verbatim>\<open>KeyboardInterrupt\<close>, \<^verbatim>\<open>SystemExit\<close>, \<^verbatim>\<open>asyncio.CancelledError\<close>).
\<close>

fun class_of :: "exn \<Rightarrow> string" where
  "class_of (InvalidIssueUrl u) = ''ValueError''"
| "class_of (InvalidLiteral s) = ''ValueError''"
| "class_of (KeyError k) = ''KeyError''"
| "class_of (JoinTypeError i) = ''TypeError''"
| "class_of ItemTypeError = ''TypeError''"
| "class_of (AttributeError c a) = ''AttributeError''"
| "class_of (ValidationError locs) = ''ValidationError''"
| "class_of (TimeoutExpired cmd t) = ''TimeoutExpired''"
| "class_of (Raised c m) = c"
| "class_of (Interrupt c) = c"

text \<open>What \<^verbatim>\<open>except Exception\<close> catches.\<close>

fun is_exception :: "exn \<Rightarrow> bool" where
  "is_exception (Interrupt c) = False"
| "is_exception e = True"

text \<open>
  The parts of the Python run time and of its libraries that the code calls and that lie
  outside the repository: \<^verbatim>\<open>urllib.parse.urlparse(u).path\<close>, the interpreter's limit on
  the digits of an integer literal (\<open>0\<close>: no limit) and \<^verbatim>\<open>str(e)\<close> of an exception.
\<close>

record runtime =
  urlparse_path :: "string \<Rightarrow> exn + string"
  int_max_str_digits :: nat
  str_exn :: "exn \<Rightarrow> string"

subsection \<open>Characters and decimal numerals\<close>

text \<open>
  The white space that \<^verbatim>\<open>int\<close> skips around a literal: the ASCII white space of C
  (code points 9 to 13 and 32) and, above the ASCII range, the characters that are
  white space for \<^verbatim>\<open>str.isspace\<close> (133 and 160 among the code points below 256). The
  separators 28 to 31, which \<^verbatim>\<open>str.strip\<close> would remove, are not skipped.
\<close>

definition int_space :: "char \<Rightarrow> bool" where
  "int_space c = (of_char c \<in> {9, 10, 11, 12, 13, 32, 133, 160 :: nat})"

definition is_digit :: "char \<Rightarrow> bool" where
  "is_digit c = (48 \<le> (of_char c :: nat) \<and> (of_char c :: nat) \<le> 57)"

definition digit_val :: "char \<Rightarrow> nat" where
  "digit_val c = of_char c - 48"

definition digit_char :: "nat \<Rightarrow> char" where
  "digit_char d = char_of (48 + d)"

text \<open>\<^verbatim>\<open>str(n)\<close> of an integer.\<close>

fun show_nat :: "nat \<Rightarrow> string" where
  "show_nat n = (if n < 10 then [digit_char n] else show_nat (n div 10) @ [digit_char (n mod 10)])"

declare show_nat.simps [simp del]

definition show_int :: "int \<Rightarrow> string" where
  "show_int i = (if i < 0 then CHR ''-'' # show_nat (nat (- i)) else show_nat (nat i))"

text \<open>
  A literal without the white space that \<^verbatim>\<open>int\<close> skips; \<^verbatim>\<open>s.strip(c)\<close> for one
  character and \<^verbatim>\<open>s.split(c)\<close>.
\<close>

definition int_strip :: "string \<Rightarrow> string" where
  "int_strip s = rev (dropWhile int_space (rev (dropWhile int_space s)))"

definition strip_char :: "char \<Rightarrow> string \<Rightarrow> string" where
  "strip_char c s = rev (dropWhile (\<lambda>x. x = c) (rev (dropWhile (\<lambda>x. x = c) s)))"

function split_char :: "char \<Rightarrow> string \<Rightarrow> string list" where
  "split_char c s =
     (case dropWhile (\<lambda>x. x \<noteq> c) s of
        [] \<Rightarrow> [s]
      | _ # r \<Rightarrow> takeWhile (\<lambda>x. x \<noteq> c) s # split_char c r)"
  by pat_completeness auto
termination
proof (relation "measure (\<lambda>(c, s). length s)")
  show "wf (measure (\<lambda>(c, s). length s))" by simp
next
  fix c :: char and s :: string and x r
  assume "dropWhile (\<lambda>x. x \<noteq> c) s = x # r"
  then have "length r < length (dropWhile (\<lambda>x. x \<noteq> c) s)" by simp
  also have "\<dots> \<le> length s" by (rule length_dropWhile_le)
  finally show "((c, r), (c, s)) \<in> measure (\<lambda>(c, s). length s)" by simp
qed

declare split_char.simps [simp del]

text \<open>
  \<^verbatim>\<open>int(s)\<close> in base 10: the white space around the literal is skipped, one sign is allowed,
  then digits with single underscores between them. \<open>int_digits\<close> reads the digits after
  the first and returns the value and the number of digits read.
\<close>

fun int_digits :: "nat \<Rightarrow> nat \<Rightarrow> string \<Rightarrow> (nat \<times> nat) option" where
  "int_digits acc k [] = Some (acc, k)"
| "int_digits acc k [c] = (if is_digit c then Some (10 * acc + digit_val c, Suc k) else None)"
| "int_digits acc k (c # d # cs) =
     (if is_digit c then int_digits (10 * acc + digit_val c) (Suc k) (d # cs)
      else if c = CHR ''_'' \<and> is_digit d then int_digits (10 * acc + digit_val d) (Suc k) cs
      else None)"

definition py_int :: "nat \<Rightarrow> string \<Rightarrow> exn + int" where
  "py_int max_digits s =
     (let t = int_strip s;
          neg = (case t of [] \<Rightarrow> False | c # r \<Rightarrow> c = CHR ''-'');
          body = (case t of [] \<Rightarrow> [] | c # r \<Rightarrow> if c = CHR ''-'' \<or> c = CHR ''+'' then r else t)
      in case body of
           [] \<Rightarrow> Inl (InvalidLiteral s)
         | c # cs \<Rightarrow>
             if \<not> is_digit c then Inl (InvalidLiteral s)
             else (case int_digits (digit_val c) 1 cs of
                     None \<Rightarrow> Inl (InvalidLiteral s)
                   | Some (n, k) \<Rightarrow>
                       if 0 < max_digits \<and> max_digits < k then Inl (InvalidLiteral s)
                       else Inr (if neg then - int n else int n)))"

section \<open>The GitHub client\<close>

text \<open>\<^verbatim>\<open>GitHubClient.parse_issue_url\<close> (github_client.py).\<close>

definition parse_issue_url :: "runtime \<Rightarrow> string \<Rightarrow> exn + (string \<times> string \<times> int)" where
  "parse_issue_url rt issue_url =
     (case urlparse_path rt issue_url of
        Inl e \<Rightarrow> Inl e
      | Inr path \<Rightarrow>
          (let path_parts = split_char CHR ''/'' (strip_char CHR ''/'' path) in
           if length path_parts < 4 then Inl (InvalidIssueUrl issue_url)
           else if path_parts ! 2 \<noteq> ''issues'' then Inl (InvalidIssueUrl issue_url)
           else (case py_int (int_max_str_digits rt) (path_parts ! 3) of
                   Inl e \<Rightarrow> Inl e
                 | Inr issue_number \<Rightarrow> Inr (path_parts ! 0, path_parts ! 1, issue_number))))"


section \<open>JSON values and dictionaries\<close>

text \<open>
  A value in a response of the host's API, as \<^verbatim>\<open>response.json()\<close> returns it. The code
  reads only keys whose values are scalars in that API (or null), so arrays and objects
  are left out, and so are floating-point numbers. A dictionary is an association list
  with distinct keys in insertion order; \<open>map_of\<close> is the lookup.
\<close>

datatype json = JNull | JBool bool | JInt int | JStr string

type_synonym jdict = "(string \<times> json) list"

text \<open>\<^verbatim>\<open>str(v)\<close>, which is also what an f-string writes for \<open>v\<close>.\<close>

fun py_str :: "json \<Rightarrow> string" where
  "py_str JNull = ''None''"
| "py_str (JBool b) = (if b then ''True'' else ''False'')"
| "py_str (JInt i) = show_int i"
| "py_str (JStr s) = s"

text \<open>\<^verbatim>\<open>type(v).__name__\<close>.\<close>

fun type_name :: "json \<Rightarrow> string" where
  "type_name JNull = ''NoneType''"
| "type_name (JBool b) = ''bool''"
| "type_name (JInt i) = ''int''"
| "type_name (JStr s) = ''str''"

text \<open>\<^verbatim>\<open>d.get(k, default)\<close> and \<^verbatim>\<open>d[k]\<close>.\<close>

definition dict_get :: "jdict \<Rightarrow> string \<Rightarrow> json \<Rightarrow> json" where
  "dict_get d k dflt = (case map_of d k of None \<Rightarrow> dflt | Some v \<Rightarrow> v)"

definition dict_item :: "jdict \<Rightarrow> string \<Rightarrow> exn + json" where
  "dict_item d k = (case map_of d k of None \<Rightarrow> Inl (KeyError k) | Some v \<Rightarrow> Inr v)"

text \<open>Truth value of an optional dictionary: \<^verbatim>\<open>None\<close> and \<^verbatim>\<open>{}\<close> are false.\<close>

fun dict_truthy :: "jdict option \<Rightarrow> bool" where
  "dict_truthy None = False"
| "dict_truthy (Some d) = (d \<noteq> [])"

text \<open>
  \<^verbatim>\<open>sep.join(items)\<close>: every item must be a \<open>str\<close>; the first that is not raises a
  \<^verbatim>\<open>TypeError\<close> naming its index.
\<close>

fun join_text :: "string \<Rightarrow> string list \<Rightarrow> string" where
  "join_text sep [] = []"
| "join_text sep [x] = x"
| "join_text sep (x # y # ys) = x @ sep @ join_text sep (y # ys)"

fun str_items :: "nat \<Rightarrow> json list \<Rightarrow> exn + string list" where
  "str_items i [] = Inr []"
| "str_items i (JStr s # vs) =
     (case str_items (Suc i) vs of Inl e \<Rightarrow> Inl e | Inr ss \<Rightarrow> Inr (s # ss))"
| "str_items i (v # vs) = Inl (JoinTypeError i)"

definition py_join :: "string \<Rightarrow> json list \<Rightarrow> exn + string" where
  "py_join sep items =
     (case str_items 0 items of Inl e \<Rightarrow> Inl e | Inr ss \<Rightarrow> Inr (join_text sep ss))"

section \<open>The assistant runner\<close>

text \<open>
  \<^verbatim>\<open>ClaudeSession.create_instruction_prompt\<close> (claude_session.py). The three list
  literals of the source are \<open>prompt_head\<close>, \<open>issue_block\<close>, \<open>repo_block\<close> and
  \<open>prompt_task\<close>; every item is a \<open>str\<close> except the issue body, which is appended as
  the dictionary holds it. \<open>opt_block\<close> is the guarded \<^verbatim>\<open>extend\<close>: nothing is appended for
  \<^verbatim>\<open>None\<close> or an empty dictionary.
\<close>

definition prompt_head :: "string \<Rightarrow> json list" where
  "prompt_head instruction =
     [JStr ''You are an autonomous software development assistant working on a GitHub repository.'',
      JStr '''',
      JStr (''Primary Instruction: '' @ instruction),
      JStr '''']"

definition issue_block :: "jdict \<Rightarrow> json list" where
  "issue_block issue_data =
     [JStr ''GitHub Issue Context:'',
      JStr (''Title: '' @ py_str (dict_get issue_data ''title'' (JStr ''N/A''))),
      JStr (''Number: #'' @ py_str (dict_get issue_data ''number'' (JStr ''N/A''))),
      JStr (''State: '' @ py_str (dict_get issue_data ''state'' (JStr ''N/A''))),
      JStr '''',
      JStr ''Issue Description:'',
      dict_get issue_data ''body'' (JStr ''No description provided.''),
      JStr '''']"

definition repo_block :: "jdict \<Rightarrow> json list" where
  "repo_block repo_data =
     [JStr ''Repository Context:'',
      JStr (''Name: '' @ py_str (dict_get repo_data ''full_name'' (JStr ''N/A''))),
      JStr (''Description: '' @ py_str (dict_get repo_data ''description'' (JStr ''N/A''))),
      JStr (''Language: '' @ py_str (dict_get repo_data ''language'' (JStr ''N/A''))),
      JStr (''Default Branch: '' @ py_str (dict_get repo_data ''default_branch'' (JStr ''main''))),
      JStr '''']"

definition prompt_task :: "json list" where
  "prompt_task =
     [JStr ''Your Task:'',
      JStr ''1. Analyze the codebase and understand the current implementation'',
      JStr ''2. Implement the requested changes or fixes'',
      JStr ''3. Ensure code quality and follow existing patterns'',
      JStr ''4. Write or update tests as appropriate'',
      JStr ''5. Make sure the changes work correctly'',
      JStr '''',
      JStr ''Work autonomously and systematically. Create a plan and execute it step by step.'',
      JStr ''Focus on delivering a complete, working solution.'']"

definition opt_block :: "(jdict \<Rightarrow> json list) \<Rightarrow> jdict option \<Rightarrow> json list" where
  "opt_block block d = (case d of None \<Rightarrow> [] | Some d \<Rightarrow> if d = [] then [] else block d)"

definition create_instruction_prompt ::
    "string \<Rightarrow> jdict option \<Rightarrow> jdict option \<Rightarrow> exn + string" where
  "create_instruction_prompt instruction issue_data repo_data =
     (let prompt_parts = prompt_head instruction;
          prompt_parts = prompt_parts @ opt_block issue_block issue_data;
          prompt_parts = prompt_parts @ opt_block repo_block repo_data;
          prompt_parts = prompt_parts @ prompt_task
      in py_join ''\<newline>'' prompt_parts)"

text \<open>The text of some lines, each followed by a line feed.\<close>

definition text_lines :: "string list \<Rightarrow> string" where
  "text_lines ls = concat (map (\<lambda>l. l @ ''\<newline>'') ls)"

section \<open>Settings\<close>

subsection \<open>Documents and dictionaries\<close>

text \<open>
  What \<^verbatim>\<open>yaml.safe_load\<close> returns and what \<^verbatim>\<open>merge_dict\<close> works on: scalars, sequences
  and mappings with string keys, a mapping being an association list with distinct keys
  in insertion order. Floating-point numbers and dates are left out; no field of the
  settings has such a type. Two sections of a document are separate values (a document
  that shares one mapping between two sections through an anchor is outside the model).
\<close>

datatype cval =
    CNone
  | CBool bool
  | CInt int
  | CStr string
  | CList "cval list"
  | CDict "(string \<times> cval) list"

text \<open>\<^verbatim>\<open>d[k] = v\<close> on the items of a dictionary: an existing key keeps its place.\<close>

fun dict_set :: "('k \<times> 'v) list \<Rightarrow> 'k \<Rightarrow> 'v \<Rightarrow> ('k \<times> 'v) list" where
  "dict_set [] k v = [(k, v)]"
| "dict_set ((k', v') # kvs) k v =
     (if k' = k then (k, v) # kvs else (k', v') # dict_set kvs k v)"

text \<open>\<^verbatim>\<open>k in s\<close> for two strings.\<close>

fun str_contains :: "string \<Rightarrow> string \<Rightarrow> bool" where
  "str_contains k [] = (k = [])"
| "str_contains k (c # cs) = (take (length k) (c # cs) = k \<or> str_contains k cs)"

text \<open>
  \<^verbatim>\<open>key in base\<close>, \<^verbatim>\<open>base.get(key, {})\<close> and \<^verbatim>\<open>base[key] = value\<close> for a string \<open>key\<close>
  and any \<open>base\<close>, with the exceptions Python raises when \<open>base\<close> is not a mapping.
\<close>

fun has_key :: "cval \<Rightarrow> string \<Rightarrow> exn + bool" where
  "has_key (CDict d) k = Inr (map_of d k \<noteq> None)"
| "has_key (CStr s) k = Inr (str_contains k s)"
| "has_key (CList vs) k = Inr (CStr k \<in> set vs)"
| "has_key CNone k = Inl ItemTypeError"
| "has_key (CBool b) k = Inl ItemTypeError"
| "has_key (CInt i) k = Inl ItemTypeError"

fun get_item :: "cval \<Rightarrow> string \<Rightarrow> exn + cval" where
  "get_item (CDict d) k = Inr (case map_of d k of None \<Rightarrow> CDict [] | Some v \<Rightarrow> v)"
| "get_item (CStr s) k = Inl (AttributeError ''str'' ''get'')"
| "get_item (CList vs) k = Inl (AttributeError ''list'' ''get'')"
| "get_item CNone k = Inl (AttributeError ''NoneType'' ''get'')"
| "get_item (CBool b) k = Inl (AttributeError ''bool'' ''get'')"
| "get_item (CInt i) k = Inl (AttributeError ''int'' ''get'')"

fun set_item :: "cval \<Rightarrow> string \<Rightarrow> cval \<Rightarrow> exn + cval" where
  "set_item (CDict d) k v = Inr (CDict (dict_set d k v))"
| "set_item base k v = Inl ItemTypeError"

text \<open>\<^verbatim>\<open>v[k1][k2]...\<close> read through nested mappings; \<open>None\<close> where the path leaves them.\<close>

fun lookup :: "cval \<Rightarrow> string list \<Rightarrow> cval option" where
  "lookup v [] = Some v"
| "lookup (CDict d) (k # ks) = (case map_of d k of None \<Rightarrow> None | Some v \<Rightarrow> lookup v ks)"
| "lookup v (k # ks) = None"

subsection \<open>Merging the overrides\<close>

text \<open>
  \<^verbatim>\<open>merge_dict\<close>, the function local to \<^verbatim>\<open>Config.load_from_file\<close> (config.py). The loop
  over \<^verbatim>\<open>override.items()\<close> is the recursion on the list of items; \<open>base\<close> is updated
  item by item and returned.
\<close>

function merge_dict :: "cval \<Rightarrow> (string \<times> cval) list \<Rightarrow> exn + cval" where
  "merge_dict base [] = Inr base"
| "merge_dict base ((key, val) # override) =
     (case val of
        CNone \<Rightarrow> merge_dict base override
      | CDict items \<Rightarrow>
          (case has_key base key of
             Inl e \<Rightarrow> Inl e
           | Inr True \<Rightarrow>
               (case get_item base key of
                  Inl e \<Rightarrow> Inl e
                | Inr sub \<Rightarrow>
                    (case merge_dict sub items of
                       Inl e \<Rightarrow> Inl e
                     | Inr merged \<Rightarrow>
                         (case set_item base key merged of
                            Inl e \<Rightarrow> Inl e
                          | Inr base' \<Rightarrow> merge_dict base' override)))
           | Inr False \<Rightarrow>
               (case set_item base key val of
                  Inl e \<Rightarrow> Inl e
                | Inr base' \<Rightarrow> merge_dict base' override))
      | _ \<Rightarrow>
          (case set_item base key val of
             Inl e \<Rightarrow> Inl e
           | Inr base' \<Rightarrow> merge_dict base' override))"
  by pat_completeness auto
termination
  by (relation "measure (\<lambda>(base, override). size_list (size_prod (\<lambda>k. 0) size) override)") auto

declare merge_dict.simps [simp del]




text \<open>
  The overrides that \<^verbatim>\<open>load_from_file\<close> builds from the environment; \<^verbatim>\<open>os.getenv\<close> is
  the parameter \<open>getenv\<close>, \<open>None\<close> for a variable that is not set.
\<close>

definition env_value :: "(string \<Rightarrow> string option) \<Rightarrow> string \<Rightarrow> cval" where
  "env_value getenv name = (case getenv name of None \<Rightarrow> CNone | Some s \<Rightarrow> CStr s)"

definition env_overrides :: "(string \<Rightarrow> string option) \<Rightarrow> (string \<times> cval) list" where
  "env_overrides getenv =
     [(''claude'', CDict
         [(''api_key'', env_value getenv ''ANTHROPIC_API_KEY''),
          (''model'', env_value getenv ''CLAUDE_MODEL'')]),
      (''github'', CDict
         [(''token'', env_value getenv ''GITHUB_TOKEN'')]),
      (''notifications'', CDict
         [(''discord'', CDict
             [(''webhook_url'', env_value getenv ''DISCORD_WEBHOOK_URL''),
              (''bot_token'', env_value getenv ''DISCORD_BOT_TOKEN''),
              (''channel_id'', env_value getenv ''DISCORD_CHANNEL_ID'')]),
          (''email'', CDict
             [(''smtp_server'', env_value getenv ''SMTP_SERVER''),
              (''username'', env_value getenv ''SMTP_USERNAME''),
              (''password'', env_value getenv ''SMTP_PASSWORD''),
              (''to_email'', env_value getenv ''EMAIL_TO'')])])]"

subsection \<open>The schema\<close>

text \<open>
  The classes of config.py as records. A field whose name is used by two classes, or is a
  common word, carries the section as a prefix (\<open>claude_model\<close>, \<open>github_token\<close>,
  \<open>discord_enabled\<close>, \<open>email_enabled\<close>, \<open>log_level\<close>, \<open>log_format\<close>, \<open>log_file\<close>).
\<close>

record ClaudeConfig =
  api_key :: string
  claude_model :: string
  max_tokens :: int

record GitHubConfig =
  github_token :: string
  default_branch :: string

record DiscordConfig =
  discord_enabled :: bool
  webhook_url :: "string option"
  bot_token :: "string option"
  channel_id :: "string option"

record EmailConfig =
  email_enabled :: bool
  smtp_server :: "string option"
  smtp_port :: int
  username :: "string option"
  password :: "string option"
  to_email :: "string option"

record NotificationConfig =
  discord :: DiscordConfig
  email :: EmailConfig

record DevelopmentConfig =
  clone_dir :: string
  max_session_time :: int
  auto_create_pr :: bool
  pr_draft :: bool

record LoggingConfig =
  log_level :: string
  log_format :: string
  log_file :: string

record Config =
  claude :: ClaudeConfig
  github :: GitHubConfig
  notifications :: NotificationConfig
  development :: DevelopmentConfig
  logging :: LoggingConfig

text \<open>The instances that the default factories build.\<close>

definition default_DiscordConfig :: DiscordConfig where
  "default_DiscordConfig =
     \<lparr>discord_enabled = False, webhook_url = None, bot_token = None, channel_id = None\<rparr>"

definition default_EmailConfig :: EmailConfig where
  "default_EmailConfig =
     \<lparr>email_enabled = False, smtp_server = None, smtp_port = 587, username = None,
      password = None, to_email = None\<rparr>"

definition default_NotificationConfig :: NotificationConfig where
  "default_NotificationConfig = \<lparr>discord = default_DiscordConfig, email = default_EmailConfig\<rparr>"

definition default_DevelopmentConfig :: DevelopmentConfig where
  "default_DevelopmentConfig =
     \<lparr>clone_dir = ''/tmp/claudeforge-repos'', max_session_time = 3600, auto_create_pr = True,
      pr_draft = False\<rparr>"

definition default_LoggingConfig :: LoggingConfig where
  "default_LoggingConfig =
     \<lparr>log_level = ''INFO'',
      log_format = ''%(asctime)s - %(name)s - %(levelname)s - %(message)s'',
      log_file = ''claudeforge.log''\<rparr>"

text \<open>
  Validation by the schema library. A value of the field's own type is accepted as it is;
  \<^verbatim>\<open>None\<close> is accepted by an \<^verbatim>\<open>Optional\<close> field only, also when the field has a default;
  a sequence or a mapping is no scalar. Whether a scalar of another type is converted
  (an integer for a \<^verbatim>\<open>str\<close> field, say) differs between the versions of the library and
  is the parameter \<open>pydantic\<close>. Keys that name no field are ignored. The result is the
  object, or the locations of the fields that were rejected.
\<close>

record pydantic =
  str_lax :: "cval \<Rightarrow> string option"
  int_lax :: "cval \<Rightarrow> int option"
  bool_lax :: "cval \<Rightarrow> bool option"

fun validate_str :: "pydantic \<Rightarrow> cval \<Rightarrow> string option" where
  "validate_str lib (CStr s) = Some s"
| "validate_str lib CNone = None"
| "validate_str lib (CList vs) = None"
| "validate_str lib (CDict d) = None"
| "validate_str lib v = str_lax lib v"

fun validate_int :: "pydantic \<Rightarrow> cval \<Rightarrow> int option" where
  "validate_int lib (CInt i) = Some i"
| "validate_int lib CNone = None"
| "validate_int lib (CList vs) = None"
| "validate_int lib (CDict d) = None"
| "validate_int lib v = int_lax lib v"

fun validate_bool :: "pydantic \<Rightarrow> cval \<Rightarrow> bool option" where
  "validate_bool lib (CBool b) = Some b"
| "validate_bool lib CNone = None"
| "validate_bool lib (CList vs) = None"
| "validate_bool lib (CDict d) = None"
| "validate_bool lib v = bool_lax lib v"

fun validate_optional_str :: "pydantic \<Rightarrow> cval \<Rightarrow> string option option" where
  "validate_optional_str lib CNone = Some None"
| "validate_optional_str lib v = map_option Some (validate_str lib v)"

type_synonym 'a checked = "string list + 'a"

definition errors :: "'a checked \<Rightarrow> string list" where
  "errors r = (case r of Inl locs \<Rightarrow> locs | Inr a \<Rightarrow> [])"

definition loc_of :: "string \<Rightarrow> string \<Rightarrow> string" where
  "loc_of loc name = (if loc = [] then name else loc @ ''.'' @ name)"

text \<open>A field without a default, a field with one, and a field that holds an object.\<close>

definition required :: "(cval \<Rightarrow> 'a option) \<Rightarrow> string \<Rightarrow> (string \<times> cval) list \<Rightarrow> string \<Rightarrow> 'a checked" where
  "required validate loc d name =
     (case map_of d name of
        None \<Rightarrow> Inl [loc_of loc name]
      | Some v \<Rightarrow> (case validate v of None \<Rightarrow> Inl [loc_of loc name] | Some a \<Rightarrow> Inr a))"

definition defaulted ::
    "(cval \<Rightarrow> 'a option) \<Rightarrow> 'a \<Rightarrow> string \<Rightarrow> (string \<times> cval) list \<Rightarrow> string \<Rightarrow> 'a checked" where
  "defaulted validate dflt loc d name =
     (case map_of d name of
        None \<Rightarrow> Inr dflt
      | Some v \<Rightarrow> (case validate v of None \<Rightarrow> Inl [loc_of loc name] | Some a \<Rightarrow> Inr a))"

definition nested ::
    "(string \<Rightarrow> cval \<Rightarrow> 'a checked) \<Rightarrow> 'a option \<Rightarrow> string \<Rightarrow> (string \<times> cval) list \<Rightarrow> string
      \<Rightarrow> 'a checked" where
  "nested validate dflt loc d name =
     (case map_of d name of
        None \<Rightarrow> (case dflt of None \<Rightarrow> Inl [loc_of loc name] | Some a \<Rightarrow> Inr a)
      | Some v \<Rightarrow> validate (loc_of loc name) v)"

fun validate_ClaudeConfig :: "pydantic \<Rightarrow> string \<Rightarrow> cval \<Rightarrow> ClaudeConfig checked" where
  "validate_ClaudeConfig lib loc (CDict d) =
     (let a = required (validate_str lib) loc d ''api_key'';
          m = defaulted (validate_str lib) ''claude-3-sonnet-20240229'' loc d ''model'';
          t = defaulted (validate_int lib) 4000 loc d ''max_tokens''
      in case (a, m, t) of
           (Inr a, Inr m, Inr t) \<Rightarrow> Inr \<lparr>api_key = a, claude_model = m, max_tokens = t\<rparr>
         | _ \<Rightarrow> Inl (errors a @ errors m @ errors t))"
| "validate_ClaudeConfig lib loc v = Inl [loc]"

fun validate_GitHubConfig :: "pydantic \<Rightarrow> string \<Rightarrow> cval \<Rightarrow> GitHubConfig checked" where
  "validate_GitHubConfig lib loc (CDict d) =
     (let t = required (validate_str lib) loc d ''token'';
          b = defaulted (validate_str lib) ''main'' loc d ''default_branch''
      in case (t, b) of
           (Inr t, Inr b) \<Rightarrow> Inr \<lparr>github_token = t, default_branch = b\<rparr>
         | _ \<Rightarrow> Inl (errors t @ errors b))"
| "validate_GitHubConfig lib loc v = Inl [loc]"

fun validate_DiscordConfig :: "pydantic \<Rightarrow> string \<Rightarrow> cval \<Rightarrow> DiscordConfig checked" where
  "validate_DiscordConfig lib loc (CDict d) =
     (let e = defaulted (validate_bool lib) False loc d ''enabled'';
          w = defaulted (validate_optional_str lib) None loc d ''webhook_url'';
          b = defaulted (validate_optional_str lib) None loc d ''bot_token'';
          c = defaulted (validate_optional_str lib) None loc d ''channel_id''
      in case (e, w, b, c) of
           (Inr e, Inr w, Inr b, Inr c) \<Rightarrow>
             Inr \<lparr>discord_enabled = e, webhook_url = w, bot_token = b, channel_id = c\<rparr>
         | _ \<Rightarrow> Inl (errors e @ errors w @ errors b @ errors c))"
| "validate_DiscordConfig lib loc v = Inl [loc]"

fun validate_EmailConfig :: "pydantic \<Rightarrow> string \<Rightarrow> cval \<Rightarrow> EmailConfig checked" where
  "validate_EmailConfig lib loc (CDict d) =
     (let e = defaulted (validate_bool lib) False loc d ''enabled'';
          s = defaulted (validate_optional_str lib) None loc d ''smtp_server'';
          p = defaulted (validate_int lib) 587 loc d ''smtp_port'';
          u = defaulted (validate_optional_str lib) None loc d ''username'';
          w = defaulted (validate_optional_str lib) None loc d ''password'';
          t = defaulted (validate_optional_str lib) None loc d ''to_email''
      in case (e, s, p, u, w, t) of
           (Inr e, Inr s, Inr p, Inr u, Inr w, Inr t) \<Rightarrow>
             Inr \<lparr>email_enabled = e, smtp_server = s, smtp_port = p, username = u,
                  password = w, to_email = t\<rparr>
         | _ \<Rightarrow> Inl (errors e @ errors s @ errors p @ errors u @ errors w @ errors t))"
| "validate_EmailConfig lib loc v = Inl [loc]"

fun validate_NotificationConfig :: "pydantic \<Rightarrow> string \<Rightarrow> cval \<Rightarrow> NotificationConfig checked" where
  "validate_NotificationConfig lib loc (CDict d) =
     (let c = nested (validate_DiscordConfig lib) (Some default_DiscordConfig) loc d ''discord'';
          e = nested (validate_EmailConfig lib) (Some default_EmailConfig) loc d ''email''
      in case (c, e) of
           (Inr c, Inr e) \<Rightarrow> Inr \<lparr>discord = c, email = e\<rparr>
         | _ \<Rightarrow> Inl (errors c @ errors e))"
| "validate_NotificationConfig lib loc v = Inl [loc]"

fun validate_DevelopmentConfig :: "pydantic \<Rightarrow> string \<Rightarrow> cval \<Rightarrow> DevelopmentConfig checked" where
  "validate_DevelopmentConfig lib loc (CDict d) =
     (let c = defaulted (validate_str lib) ''/tmp/claudeforge-repos'' loc d ''clone_dir'';
          m = defaulted (validate_int lib) 3600 loc d ''max_session_time'';
          a = defaulted (validate_bool lib) True loc d ''auto_create_pr'';
          p = defaulted (validate_bool lib) False loc d ''pr_draft''
      in case (c, m, a, p) of
           (Inr c, Inr m, Inr a, Inr p) \<Rightarrow>
             Inr \<lparr>clone_dir = c, max_session_time = m, auto_create_pr = a, pr_draft = p\<rparr>
         | _ \<Rightarrow> Inl (errors c @ errors m @ errors a @ errors p))"
| "validate_DevelopmentConfig lib loc v = Inl [loc]"

fun validate_LoggingConfig :: "pydantic \<Rightarrow> string \<Rightarrow> cval \<Rightarrow> LoggingConfig checked" where
  "validate_LoggingConfig lib loc (CDict d) =
     (let l = defaulted (validate_str lib) ''INFO'' loc d ''level'';
          f = defaulted (validate_str lib)
                ''%(asctime)s - %(name)s - %(levelname)s - %(message)s'' loc d ''format'';
          p = defaulted (validate_str lib) ''claudeforge.log'' loc d ''file''
      in case (l, f, p) of
           (Inr l, Inr f, Inr p) \<Rightarrow> Inr \<lparr>log_level = l, log_format = f, log_file = p\<rparr>
         | _ \<Rightarrow> Inl (errors l @ errors f @ errors p))"
| "validate_LoggingConfig lib loc v = Inl [loc]"

text \<open>
  \<^verbatim>\<open>cls(**config_data)\<close>: a validation error carries the rejected locations; unpacking
  something that is no mapping is a \<^verbatim>\<open>TypeError\<close>.
\<close>

fun validate_Config :: "pydantic \<Rightarrow> cval \<Rightarrow> exn + Config" where
  "validate_Config lib (CDict d) =
     (let c = nested (validate_ClaudeConfig lib) None '''' d ''claude'';
          g = nested (validate_GitHubConfig lib) None '''' d ''github'';
          n = nested (validate_NotificationConfig lib) (Some default_NotificationConfig) '''' d
                ''notifications'';
          v = nested (validate_DevelopmentConfig lib) (Some default_DevelopmentConfig) '''' d
                ''development'';
          l = nested (validate_LoggingConfig lib) (Some default_LoggingConfig) '''' d ''logging''
      in case (c, g, n, v, l) of
           (Inr c, Inr g, Inr n, Inr v, Inr l) \<Rightarrow>
             Inr \<lparr>claude = c, github = g, notifications = n, development = v, logging = l\<rparr>
         | _ \<Rightarrow> Inl (ValidationError (errors c @ errors g @ errors n @ errors v @ errors l)))"
| "validate_Config lib v = Inl ItemTypeError"

text \<open>
  \<^verbatim>\<open>Config.load_from_file\<close>. \<open>file\<close> is \<open>None\<close> when no path is given or nothing exists
  at the path, and otherwise what opening and parsing the file gives: an exception or
  the document (\<open>CNone\<close> for an empty file).
\<close>

definition load_from_file ::
    "pydantic \<Rightarrow> (exn + cval) option \<Rightarrow> (string \<Rightarrow> string option) \<Rightarrow> exn + Config" where
  "load_from_file lib file getenv =
     (case (case file of None \<Rightarrow> Inr (CDict []) | Some loaded \<Rightarrow> loaded) of
        Inl e \<Rightarrow> Inl e
      | Inr config_data \<Rightarrow>
          (case merge_dict config_data (env_overrides getenv) of
             Inl e \<Rightarrow> Inl e
           | Inr config_data \<Rightarrow> validate_Config lib config_data))"


definition dict_ClaudeConfig :: "ClaudeConfig \<Rightarrow> (string \<times> cval) list" where
  "dict_ClaudeConfig c =
     [(''api_key'', CStr (api_key c)), (''model'', CStr (claude_model c)),
      (''max_tokens'', CInt (max_tokens c))]"








definition getattr_ClaudeConfig :: "ClaudeConfig \<Rightarrow> string \<Rightarrow> exn + cval" where
  "getattr_ClaudeConfig c name =
     (case map_of (dict_ClaudeConfig c) name of
        None \<Rightarrow> Inl (AttributeError ''ClaudeConfig'' name)
      | Some v \<Rightarrow> Inr v)"

section \<open>The outside world and the session state\<close>

text \<open>
  Everything the session does outside the process is an event, recorded in the order of
  the calls, whatever the outcome of the call: a reading of the clock, a request to the
  host's API, a directory made, a command of Git, the assistant's subprocess, a post to
  the chat webhook, a mail handed to the SMTP server, and a record written by the logger
  of the notification module (the records written by the loggers of the other modules
  are left out).
\<close>

record reading =
  isoformat :: string
  epoch :: int
  micros :: int

text \<open>
  \<open>isoformat\<close> is \<^verbatim>\<open>datetime.isoformat()\<close>, \<open>epoch\<close> is \<^verbatim>\<open>int(datetime.timestamp())\<close>, and
  \<open>micros\<close> the reading in microseconds, the difference of two readings being what
  \<^verbatim>\<open>total_seconds\<close> returns, in microseconds.
\<close>

record completed =
  returncode :: int
  stdout :: string
  stderr :: string

record embed_field =
  field_name :: string
  field_value :: json
  field_inline :: bool

record embed =
  embed_title :: string
  embed_color :: int
  embed_fields :: "embed_field list"
  embed_timestamp :: json
  embed_description :: "json option"

record payload =
  content :: string
  embeds :: "embed list"

record mail =
  mail_server :: "string option"
  mail_port :: int
  mail_username :: "string option"
  mail_password :: "string option"
  mail_from :: "string option"
  mail_to :: string
  mail_subject :: string
  mail_body :: string
  mail_html :: "string option"

datatype event =
    ClockRead
  | HttpGet string
  | HttpPost string jdict
  | MakeDirs string
  | GitClone string string
  | GitCheckout "json list"
  | GitIsDirty
  | GitUntracked
  | GitAdd string
  | GitCommit string
  | GitPush string
  | RunProcess "string list" string int "(string \<times> string) list"
  | WebhookPost string payload
  | SmtpSend mail
  | Logged string string

text \<open>
  What the world answers. Every collaborator decides on the request and on everything
  that happened before, so that two calls with the same request may end differently. An
  answer is a value or the exception that the call raises; \<^verbatim>\<open>raise_for_status\<close> and
  \<^verbatim>\<open>response.json()\<close> belong to the request. \<open>path_join\<close> is \<^verbatim>\<open>str(Path(a) / b)\<close>; \<open>str_title\<close>
  and \<open>str_upper\<close> are \<^verbatim>\<open>str.title\<close> and \<^verbatim>\<open>str.upper\<close>.
\<close>

record world =
  now :: "event list \<Rightarrow> reading"
  http_get :: "event list \<Rightarrow> string \<Rightarrow> exn + jdict"
  http_post :: "event list \<Rightarrow> string \<Rightarrow> jdict \<Rightarrow> exn + jdict"
  make_dirs :: "event list \<Rightarrow> string \<Rightarrow> exn + unit"
  clone_from :: "event list \<Rightarrow> string \<Rightarrow> string \<Rightarrow> exn + unit"
  git_checkout :: "event list \<Rightarrow> json list \<Rightarrow> exn + unit"
  git_is_dirty :: "event list \<Rightarrow> exn + bool"
  git_untracked_files :: "event list \<Rightarrow> exn + string list"
  git_add :: "event list \<Rightarrow> string \<Rightarrow> exn + unit"
  git_commit :: "event list \<Rightarrow> string \<Rightarrow> exn + unit"
  git_push :: "event list \<Rightarrow> string \<Rightarrow> exn + unit"
  subprocess_run ::
    "event list \<Rightarrow> string list \<Rightarrow> string \<Rightarrow> int \<Rightarrow> (string \<times> string) list \<Rightarrow> exn + completed"
  webhook_post :: "event list \<Rightarrow> string \<Rightarrow> payload \<Rightarrow> exn + unit"
  smtp_send :: "event list \<Rightarrow> mail \<Rightarrow> exn + unit"
  path_join :: "string \<Rightarrow> string \<Rightarrow> string"
  str_title :: "string \<Rightarrow> string"
  str_upper :: "string \<Rightarrow> string"

text \<open>
  The result of \<^verbatim>\<open>analyze_session_output\<close> and the dictionary that \<^verbatim>\<open>run_session\<close>
  returns, a key that may be missing being an optional field. The fields carry a prefix
  (\<open>an_\<close>, \<open>res_\<close>) because the keys are common words. \<open>res_pr_url\<close> is \<open>Some JNull\<close> when
  the key holds \<^verbatim>\<open>None\<close>; \<open>res_duration\<close> is in microseconds.
\<close>

record analysis =
  an_success :: bool
  an_return_code :: int
  an_stdout :: string
  an_stderr :: string
  an_summary :: string
  an_changes_made :: "string list"
  an_errors :: "string list"

record result =
  res_success :: bool
  res_issue_url :: string
  res_start_time :: string
  res_instruction :: string
  res_error :: "string option"
  res_details :: "analysis option"
  res_branch_name :: "string option"
  res_pr_url :: "json option"
  res_changes_committed :: "bool option"
  res_session_analysis :: "analysis option"
  res_message :: "string option"
  res_end_time :: "string option"
  res_duration :: "int option"

text \<open>
  A piece of the program is a function of the state, which holds the result dictionary
  (updated in place by the source) and the events so far; it returns a value or the
  exception it raises, and the new state.
\<close>

record session =
  res :: result
  trace :: "event list"

type_synonym 'a action = "session \<Rightarrow> (exn + 'a) \<times> session"

definition ret :: "'a \<Rightarrow> 'a action" where
  "ret x s = (Inr x, s)"

definition raise :: "exn \<Rightarrow> 'a action" where
  "raise e s = (Inl e, s)"

definition lift :: "exn + 'a \<Rightarrow> 'a action" where
  "lift r s = (r, s)"

definition bind :: "'a action \<Rightarrow> ('a \<Rightarrow> 'b action) \<Rightarrow> 'b action" where
  "bind m f s = (case m s of (Inl e, s') \<Rightarrow> (Inl e, s') | (Inr x, s') \<Rightarrow> f x s')"

text \<open>A call to the world: the answer depends on the events before; the call is recorded.\<close>

definition call :: "event \<Rightarrow> (event list \<Rightarrow> exn + 'a) \<Rightarrow> 'a action" where
  "call ev answer s = (answer (trace s), s\<lparr>trace := trace s @ [ev]\<rparr>)"

definition update :: "(result \<Rightarrow> result) \<Rightarrow> unit action" where
  "update f s = (Inr (), s\<lparr>res := f (res s)\<rparr>)"

text \<open>\<^verbatim>\<open>try: m except Exception as e: h(e)\<close>.\<close>

definition try_except :: "'a action \<Rightarrow> (exn \<Rightarrow> 'a action) \<Rightarrow> 'a action" where
  "try_except m h s =
     (case m s of
        (Inl e, s') \<Rightarrow> if is_exception e then h e s' else (Inl e, s')
      | (Inr x, s') \<Rightarrow> (Inr x, s'))"

definition clock :: "world \<Rightarrow> reading action" where
  "clock w = call ClockRead (\<lambda>tr. Inr (now w tr))"

definition logged :: "string \<Rightarrow> string \<Rightarrow> unit action" where
  "logged level msg = call (Logged level msg) (\<lambda>tr. Inr ())"

section \<open>Notifications\<close>

text \<open>
  The \<^verbatim>\<open>details\<close> mapping with the keys that the two renderers read; each may be missing.
  \<^verbatim>\<open>changes\<close> and \<^verbatim>\<open>errors\<close> are sequences, the other three any scalar.
\<close>

record details =
  d_timestamp :: "json option"
  d_summary :: "json option"
  d_changes :: "json list option"
  d_pr_url :: "json option"
  d_errors :: "json list option"

definition no_details :: details where
  "no_details =
     \<lparr>d_timestamp = None, d_summary = None, d_changes = None, d_pr_url = None, d_errors = None\<rparr>"

record DiscordNotifier =
  dn_webhook_url :: "string option"
  dn_bot_token :: "string option"

record EmailNotifier =
  en_smtp_server :: "string option"
  en_smtp_port :: int
  en_username :: "string option"
  en_password :: "string option"
  en_from_email :: "string option"

record NotificationManager =
  nm_discord :: "DiscordNotifier option"
  nm_email :: "EmailNotifier option"

text \<open>\<^verbatim>\<open>NotificationManager.__init__\<close>; \<^verbatim>\<open>from_email or username\<close> with no sender given.\<close>

definition NotificationManager_init :: "Config \<Rightarrow> NotificationManager" where
  "NotificationManager_init config =
     (let discord_config = discord (notifications config);
          email_config = email (notifications config)
      in \<lparr>nm_discord =
             (if discord_enabled discord_config
              then Some \<lparr>dn_webhook_url = webhook_url discord_config,
                         dn_bot_token = bot_token discord_config\<rparr>
              else None),
           nm_email =
             (if email_enabled email_config
              then Some \<lparr>en_smtp_server = smtp_server email_config,
                         en_smtp_port = smtp_port email_config,
                         en_username = username email_config,
                         en_password = password email_config,
                         en_from_email = username email_config\<rparr>
              else None)\<rparr>)"

text \<open>\<^verbatim>\<open>DiscordNotifier.create_session_embed\<close>; the join of the first five changes can raise.\<close>

definition create_session_embed :: "world \<Rightarrow> string \<Rightarrow> string \<Rightarrow> details \<Rightarrow> exn + embed" where
  "create_session_embed w status issue_url details =
     (let color = (if status = ''success'' then 65280 else if status = ''error'' then 16711680
                   else 16755200);
          emb = \<lparr>embed_title = ''ClaudeForge Session '' @ str_title w status,
                   embed_color = color,
                   embed_fields =
                     [\<lparr>field_name = ''Issue URL'', field_value = JStr issue_url,
                       field_inline = False\<rparr>,
                      \<lparr>field_name = ''Status'', field_value = JStr status, field_inline = True\<rparr>],
                   embed_timestamp = (case d_timestamp details of None \<Rightarrow> JStr '''' | Some t \<Rightarrow> t),
                   embed_description = None\<rparr>;
          emb = (case d_summary details of
                     None \<Rightarrow> emb
                   | Some summary \<Rightarrow> emb\<lparr>embed_description := Some summary\<rparr>)
      in case (case d_changes details of
                 None \<Rightarrow> Inr emb
               | Some changes \<Rightarrow>
                   if changes = [] then Inr emb
                   else (case py_join ''\<newline>'' (take 5 changes) of
                           Inl e \<Rightarrow> Inl e
                         | Inr changes_text \<Rightarrow>
                             Inr (emb\<lparr>embed_fields := embed_fields emb @
                                    [\<lparr>field_name = ''Changes Made'',
                                      field_value = JStr changes_text,
                                      field_inline = False\<rparr>]\<rparr>))) of
           Inl e \<Rightarrow> Inl e
         | Inr emb \<Rightarrow>
             Inr (case d_pr_url details of
                    None \<Rightarrow> emb
                  | Some pr_url \<Rightarrow>
                      emb\<lparr>embed_fields := embed_fields emb @
                        [\<lparr>field_name = ''Pull Request'', field_value = pr_url,
                          field_inline = False\<rparr>]\<rparr>))"

text \<open>
  \<^verbatim>\<open>DiscordNotifier.send_webhook_message\<close>, always called with an embed, which is a
  dictionary with keys and so true. \<open>str_exn\<close> writes the exception into the log record.
\<close>

definition send_webhook_message ::
    "runtime \<Rightarrow> world \<Rightarrow> DiscordNotifier \<Rightarrow> string \<Rightarrow> embed \<Rightarrow> bool action" where
  "send_webhook_message rt w self message emb =
     (case dn_webhook_url self of
        None \<Rightarrow> bind (logged ''WARNING'' ''Discord webhook URL not configured'') (\<lambda>_. ret False)
      | Some url \<Rightarrow>
          if url = [] then
            bind (logged ''WARNING'' ''Discord webhook URL not configured'') (\<lambda>_. ret False)
          else
            try_except
              (let payload = \<lparr>content = message, embeds = [emb]\<rparr> in
               bind (call (WebhookPost url payload) (\<lambda>tr. webhook_post w tr url payload)) (\<lambda>_.
               bind (logged ''INFO'' ''Discord webhook message sent successfully'') (\<lambda>_.
               ret True)))
              (\<lambda>e. bind (logged ''ERROR'' (''Failed to send Discord webhook message: '' @ str_exn rt e))
                      (\<lambda>_. ret False)))"

text \<open>\<^verbatim>\<open>EmailNotifier.send_email\<close> with an HTML body; an empty one is left out.\<close>

definition send_email ::
    "runtime \<Rightarrow> world \<Rightarrow> EmailNotifier \<Rightarrow> string \<Rightarrow> string \<Rightarrow> string \<Rightarrow> string \<Rightarrow> bool action" where
  "send_email rt w self recipient subject body html_body =
     try_except
       (let msg = \<lparr>mail_server = en_smtp_server self, mail_port = en_smtp_port self,
                   mail_username = en_username self, mail_password = en_password self,
                   mail_from = en_from_email self, mail_to = recipient, mail_subject = subject,
                   mail_body = body,
                   mail_html = (if html_body = [] then None else Some html_body)\<rparr> in
        bind (call (SmtpSend msg) (\<lambda>tr. smtp_send w tr msg)) (\<lambda>_.
        bind (logged ''INFO'' (''Email sent successfully to '' @ recipient)) (\<lambda>_.
        ret True)))
       (\<lambda>e. bind (logged ''ERROR'' (''Failed to send email: '' @ str_exn rt e)) (\<lambda>_. ret False))"

text \<open>
  \<^verbatim>\<open>EmailNotifier.create_session_email\<close>. The summary is appended as the mapping holds it,
  so the join can raise; the changes and the errors go through an f-string.
\<close>

definition str_replace_newline :: "string \<Rightarrow> string \<Rightarrow> string" where
  "str_replace_newline new s = concat (map (\<lambda>c. if c = CHR ''\<newline>'' then new else [c]) s)"

definition create_session_email ::
    "world \<Rightarrow> string \<Rightarrow> string \<Rightarrow> details \<Rightarrow> exn + (string \<times> string \<times> string)" where
  "create_session_email w status issue_url details =
     (let subject = ''ClaudeForge Session '' @ str_title w status @ '' - '' @ issue_url;
          body_parts =
            [JStr (''ClaudeForge Session Status: '' @ str_upper w status), JStr '''',
             JStr (''Issue URL: '' @ issue_url), JStr ''''];
          body_parts = body_parts @
            (case d_summary details of
               None \<Rightarrow> []
             | Some summary \<Rightarrow> [JStr ''Summary:'', summary, JStr '''']);
          body_parts = body_parts @
            (case d_changes details of
               None \<Rightarrow> []
             | Some changes \<Rightarrow>
                 if changes = [] then []
                 else [JStr ''Changes Made:''] @ map (\<lambda>change. JStr (''- '' @ py_str change)) changes
                      @ [JStr '''']);
          body_parts = body_parts @
            (case d_pr_url details of
               None \<Rightarrow> []
             | Some pr_url \<Rightarrow> [JStr (''Pull Request: '' @ py_str pr_url), JStr '''']);
          body_parts = body_parts @
            (case d_errors details of
               None \<Rightarrow> []
             | Some errs \<Rightarrow>
                 if errs = [] then []
                 else [JStr ''Errors:''] @ map (\<lambda>error. JStr (''- '' @ py_str error)) errs
                      @ [JStr '''']);
          body_parts = body_parts @ [JStr ''Generated by ClaudeForge'']
      in case py_join ''\<newline>'' body_parts of
           Inl e \<Rightarrow> Inl e
         | Inr body \<Rightarrow> Inr (subject, body, str_replace_newline ''<br>'' body))"

text \<open>
  \<^verbatim>\<open>NotificationManager.notify_session_status\<close>. For the mail the source renders the three
  texts and stops there: the line that would call \<^verbatim>\<open>send_email\<close> is a comment.
\<close>

definition notify_session_status ::
    "runtime \<Rightarrow> world \<Rightarrow> NotificationManager \<Rightarrow> string \<Rightarrow> string \<Rightarrow> details \<Rightarrow> unit action" where
  "notify_session_status rt w self status issue_url details =
     bind (logged ''INFO'' (''Sending notifications for session '' @ status)) (\<lambda>_.
     bind (case nm_discord self of
             None \<Rightarrow> ret ()
           | Some notifier \<Rightarrow>
               bind (lift (create_session_embed w status issue_url details)) (\<lambda>emb.
               bind (send_webhook_message rt w notifier
                       (''ClaudeForge session '' @ status @ '' for '' @ issue_url) emb) (\<lambda>_.
               ret ()))) (\<lambda>_.
     case nm_email self of
       None \<Rightarrow> ret ()
     | Some notifier \<Rightarrow>
         bind (lift (create_session_email w status issue_url details)) (\<lambda>_. ret ())))"

section \<open>The GitHub client, continued\<close>

text \<open>
  \<^verbatim>\<open>s.startswith(p)\<close> and \<^verbatim>\<open>s.replace(old, new)\<close> for a non-empty \<open>old\<close>: every occurrence,
  from the left, without overlap.
\<close>

definition startswith :: "string \<Rightarrow> string \<Rightarrow> bool" where
  "startswith s p = (take (length p) s = p)"

function str_replace :: "string \<Rightarrow> string \<Rightarrow> string \<Rightarrow> string" where
  "str_replace old new s =
     (if old = [] \<or> s = [] then s
      else if startswith s old then new @ str_replace old new (drop (length old) s)
      else hd s # str_replace old new (tl s))"
  by pat_completeness auto
termination
  by (relation "measure (\<lambda>(old, new, s). length s)") auto

declare str_replace.simps [simp del]

text \<open>\<^verbatim>\<open>get_issue\<close>, \<^verbatim>\<open>get_repository\<close>, \<^verbatim>\<open>create_pull_request\<close> and \<^verbatim>\<open>add_comment_to_issue\<close>.\<close>

definition get_issue :: "world \<Rightarrow> string \<Rightarrow> string \<Rightarrow> int \<Rightarrow> jdict action" where
  "get_issue w owner repo issue_number =
     (let url = ''https://api.github.com/repos/'' @ owner @ ''/'' @ repo @ ''/issues/''
                @ show_int issue_number
      in call (HttpGet url) (\<lambda>tr. http_get w tr url))"

definition get_repository :: "world \<Rightarrow> string \<Rightarrow> string \<Rightarrow> jdict action" where
  "get_repository w owner repo =
     (let url = ''https://api.github.com/repos/'' @ owner @ ''/'' @ repo
      in call (HttpGet url) (\<lambda>tr. http_get w tr url))"

definition create_pull_request ::
    "world \<Rightarrow> string \<Rightarrow> string \<Rightarrow> string \<Rightarrow> string \<Rightarrow> string \<Rightarrow> json \<Rightarrow> bool \<Rightarrow> jdict action" where
  "create_pull_request w owner repo title body head_branch base_branch draft =
     (let url = ''https://api.github.com/repos/'' @ owner @ ''/'' @ repo @ ''/pulls'';
          data = [(''title'', JStr title), (''body'', JStr body), (''head'', JStr head_branch),
                  (''base'', base_branch), (''draft'', JBool draft)]
      in call (HttpPost url data) (\<lambda>tr. http_post w tr url data))"

definition add_comment_to_issue ::
    "world \<Rightarrow> string \<Rightarrow> string \<Rightarrow> int \<Rightarrow> string \<Rightarrow> jdict action" where
  "add_comment_to_issue w owner repo issue_number comment =
     (let url = ''https://api.github.com/repos/'' @ owner @ ''/'' @ repo @ ''/issues/''
                @ show_int issue_number @ ''/comments'';
          data = [(''body'', JStr comment)]
      in call (HttpPost url data) (\<lambda>tr. http_post w tr url data))"

text \<open>
  \<^verbatim>\<open>clone_repository\<close>: the token goes into the URL, the clone is made, and a failed
  checkout of the branch is swallowed. \<^verbatim>\<open>clone_url\<close> is what the repository data holds; a
  value that is no string has no \<^verbatim>\<open>startswith\<close>.
\<close>

definition clone_repository :: "world \<Rightarrow> string \<Rightarrow> json \<Rightarrow> string \<Rightarrow> json \<Rightarrow> unit action" where
  "clone_repository w token clone_url local_path branch =
     (case clone_url of
        JStr url \<Rightarrow>
          (let auth_url =
                 (if startswith url ''https://github.com/''
                  then str_replace ''https://github.com/''
                         (''https://x-access-token:'' @ token @ ''@github.com/'') url
                  else url)
           in bind (call (GitClone auth_url local_path) (\<lambda>tr. clone_from w tr auth_url local_path))
                (\<lambda>_. try_except (call (GitCheckout [branch]) (\<lambda>tr. git_checkout w tr [branch]))
                       (\<lambda>e. ret ())))
      | v \<Rightarrow> raise (AttributeError (type_name v) ''startswith''))"

definition create_branch :: "world \<Rightarrow> string \<Rightarrow> json \<Rightarrow> unit action" where
  "create_branch w branch_name base_branch =
     bind (call (GitCheckout [base_branch]) (\<lambda>tr. git_checkout w tr [base_branch])) (\<lambda>_.
     call (GitCheckout [JStr ''-b'', JStr branch_name])
       (\<lambda>tr. git_checkout w tr [JStr ''-b'', JStr branch_name]))"

definition push_changes :: "world \<Rightarrow> string \<Rightarrow> unit action" where
  "push_changes w branch_name = call (GitPush branch_name) (\<lambda>tr. git_push w tr branch_name)"

section \<open>The assistant runner, continued\<close>

text \<open>
  \<^verbatim>\<open>run_claude_code_session\<close>: the subprocess gets the time budget in its environment and
  is stopped sixty seconds after it; both handlers raise the exception again.
\<close>

definition run_claude_code_session :: "world \<Rightarrow> string \<Rightarrow> string \<Rightarrow> int \<Rightarrow> completed action" where
  "run_claude_code_session w repo_path instruction max_time =
     (let cmd = [''claude-code'', ''--'', instruction];
          env = [(''CLAUDE_CODE_NON_INTERACTIVE'', ''1''),
                 (''CLAUDE_CODE_TIMEOUT'', show_int max_time)]
      in call (RunProcess cmd repo_path (max_time + 60) env)
           (\<lambda>tr. subprocess_run w tr cmd repo_path (max_time + 60) env))"

definition analyze_session_output :: "completed \<Rightarrow> analysis" where
  "analyze_session_output result =
     \<lparr>an_success = (returncode result = 0),
      an_return_code = returncode result,
      an_stdout = stdout result,
      an_stderr = stderr result,
      an_summary =
        (if returncode result = 0 then ''Claude Code session completed successfully''
         else ''Claude Code session failed with return code '' @ show_int (returncode result)),
      an_changes_made = [],
      an_errors = (if returncode result = 0 then [] else [stderr result])\<rparr>"

section \<open>The orchestrator\<close>

text \<open>
  \<^verbatim>\<open>ClaudeForgeOrchestrator.run_session\<close> (orchestrator.py), in the three parts in which
  the \<^verbatim>\<open>try\<close> block runs: the preparation up to the notification that the session has
  started, the read of the time budget, and the work from the call of the assistant on.
  \<open>prepared\<close> holds the local variables that the third part uses.
\<close>

record prepared =
  p_owner :: string
  p_repo :: string
  p_issue_number :: int
  p_repo_data :: jdict
  p_branch_name :: string
  p_repo_path :: string
  p_full_instruction :: string
  p_session_start :: reading

definition initial_result :: "string \<Rightarrow> string \<Rightarrow> reading \<Rightarrow> result" where
  "initial_result issue_url instruction session_start =
     \<lparr>res_success = False, res_issue_url = issue_url, res_start_time = isoformat session_start,
      res_instruction = instruction, res_error = None, res_details = None,
      res_branch_name = None, res_pr_url = None, res_changes_committed = None,
      res_session_analysis = None, res_message = None, res_end_time = None,
      res_duration = None\<rparr>"

definition session_setup ::
    "runtime \<Rightarrow> world \<Rightarrow> Config \<Rightarrow> reading \<Rightarrow> string \<Rightarrow> string \<Rightarrow> string option
      \<Rightarrow> prepared action" where
  "session_setup rt w config session_start issue_url instruction branch_name =
     bind (lift (parse_issue_url rt issue_url)) (\<lambda>(owner, repo, issue_number).
     bind (get_issue w owner repo issue_number) (\<lambda>issue_data.
     bind (get_repository w owner repo) (\<lambda>repo_data.
     (let branch_name = (case branch_name of
               None \<Rightarrow> ''claudeforge-issue-'' @ show_int issue_number @ ''-''
                         @ show_int (epoch session_start)
             | Some b \<Rightarrow>
                 if b = [] then ''claudeforge-issue-'' @ show_int issue_number @ ''-''
                                @ show_int (epoch session_start)
                 else b) in
     (let clone_root = clone_dir (development config) in
     bind (call (MakeDirs clone_root) (\<lambda>tr. make_dirs w tr clone_root)) (\<lambda>_.
     (let repo_path = path_join w clone_root (repo @ ''-'' @ show_int (epoch session_start)) in
     bind (lift (dict_item repo_data ''clone_url'')) (\<lambda>clone_url.
     bind (clone_repository w (github_token (github config)) clone_url repo_path
             (dict_get repo_data ''default_branch'' (JStr ''main''))) (\<lambda>_.
     bind (create_branch w branch_name (dict_get repo_data ''default_branch'' (JStr ''main''))) (\<lambda>_.
     bind (lift (create_instruction_prompt instruction (Some issue_data) (Some repo_data))) (\<lambda>full_instruction.
     bind (lift (dict_item repo_data ''full_name'')) (\<lambda>full_name.
     bind (notify_session_status rt w (NotificationManager_init config) ''started'' issue_url
             (no_details
                \<lparr>d_timestamp := Some (JStr (isoformat session_start)),
                 d_summary := Some (JStr (''Started working on issue #'' @ show_int issue_number
                    @ '': '' @ py_str (dict_get issue_data ''title'' (JStr ''N/A''))))\<rparr>)) (\<lambda>_.
     ret \<lparr>p_owner = owner, p_repo = repo, p_issue_number = issue_number,
          p_repo_data = repo_data, p_branch_name = branch_name, p_repo_path = repo_path,
          p_full_instruction = full_instruction, p_session_start = session_start\<rparr>)))))))))))))"

text \<open>
  The read \<^verbatim>\<open>self.config.claude.timeout\<close>, evaluated as the last argument before the
  runner is called. The runner adds sixty to it, so a value that were no integer would
  end in a \<^verbatim>\<open>TypeError\<close>.
\<close>

definition read_timeout :: "Config \<Rightarrow> exn + int" where
  "read_timeout config =
     (case getattr_ClaudeConfig (claude config) ''timeout'' of
        Inl e \<Rightarrow> Inl e
      | Inr (CInt t) \<Rightarrow> Inr t
      | Inr v \<Rightarrow> Inl ItemTypeError)"

text \<open>The text of the pull request; \<^verbatim>\<open>strip\<close> takes the line feeds off both ends.\<close>

definition pr_body :: "string \<Rightarrow> string \<Rightarrow> analysis \<Rightarrow> int \<Rightarrow> string" where
  "pr_body issue_url instruction session_analysis issue_number =
     ''## ClaudeForge Automated Changes\<newline>\<newline>''
     @ ''**Issue:** '' @ issue_url @ ''\<newline>''
     @ ''**Instruction:** '' @ instruction @ ''\<newline>\<newline>''
     @ ''### Summary\<newline>'' @ an_summary session_analysis @ ''\<newline>\<newline>''
     @ ''### Changes Made\<newline>''
     @ ''- Automated implementation using Claude Code\<newline>''
     @ ''- Resolves issue #'' @ show_int issue_number @ ''\<newline>\<newline>''
     @ ''---\<newline>''
     @ ''*This pull request was automatically created by ClaudeForge*''"

text \<open>
  The comment on the issue starts with a robot emoji, written here as the four bytes of
  its UTF-8 form.
\<close>

definition pr_comment :: "json \<Rightarrow> string" where
  "pr_comment pr_url =
     [CHR 0xF0, CHR 0x9F, CHR 0xA4, CHR 0x96]
     @ '' ClaudeForge has created a pull request to address this issue: '' @ py_str pr_url"

text \<open>
  From the call of the assistant to the end of the \<^verbatim>\<open>try\<close> block. An early
  \<^verbatim>\<open>return result\<close> is the end of the action: the result is read from the state.
\<close>

definition commit_and_publish ::
    "runtime \<Rightarrow> world \<Rightarrow> Config \<Rightarrow> prepared \<Rightarrow> string \<Rightarrow> string \<Rightarrow> bool \<Rightarrow> bool \<Rightarrow> analysis
      \<Rightarrow> unit action" where
  "commit_and_publish rt w config p issue_url instruction create_pr draft_pr session_analysis =
     bind (call (GitAdd ''.'') (\<lambda>tr. git_add w tr ''.'')) (\<lambda>_.
     (let commit_message = ''ClaudeForge: '' @ instruction @ ''\<newline>\<newline>Resolves #''
                           @ show_int (p_issue_number p) in
     bind (call (GitCommit commit_message) (\<lambda>tr. git_commit w tr commit_message)) (\<lambda>_.
     bind (push_changes w (p_branch_name p)) (\<lambda>_.
     bind (if create_pr \<and> auto_create_pr (development config) then
             bind (create_pull_request w (p_owner p) (p_repo p) (''ClaudeForge: '' @ instruction)
                     (pr_body issue_url instruction session_analysis (p_issue_number p))
                     (p_branch_name p) (dict_get (p_repo_data p) ''default_branch'' (JStr ''main''))
                     draft_pr) (\<lambda>pr_data.
             bind (lift (dict_item pr_data ''html_url'')) (\<lambda>pr_url.
             bind (add_comment_to_issue w (p_owner p) (p_repo p) (p_issue_number p)
                     (pr_comment pr_url)) (\<lambda>_.
             ret pr_url)))
           else ret JNull) (\<lambda>pr_url.
     bind (update (\<lambda>r. r\<lparr>res_success := True, res_branch_name := Some (p_branch_name p),
                           res_pr_url := Some pr_url, res_changes_committed := Some True,
                           res_session_analysis := Some session_analysis\<rparr>)) (\<lambda>_.
     bind (clock w) (\<lambda>t.
     notify_session_status rt w (NotificationManager_init config) ''success'' issue_url
       (no_details
          \<lparr>d_timestamp := Some (JStr (isoformat t)),
           d_summary := Some (JStr (''Successfully completed work on issue #''
              @ show_int (p_issue_number p))),
           d_pr_url := Some pr_url,
           d_changes := Some (map JStr (an_changes_made session_analysis))\<rparr>))))))))"

definition no_changes ::
    "runtime \<Rightarrow> world \<Rightarrow> Config \<Rightarrow> string \<Rightarrow> unit action" where
  "no_changes rt w config issue_url =
     bind (update (\<lambda>r. r\<lparr>res_success := True, res_changes_committed := Some False,
                           res_message := Some ''No changes were made to the repository''\<rparr>)) (\<lambda>_.
     bind (clock w) (\<lambda>t.
     notify_session_status rt w (NotificationManager_init config) ''completed'' issue_url
       (no_details
          \<lparr>d_timestamp := Some (JStr (isoformat t)),
           d_summary := Some (JStr ''Session completed but no changes were made'')\<rparr>)))"

definition assistant_phase ::
    "runtime \<Rightarrow> world \<Rightarrow> Config \<Rightarrow> prepared \<Rightarrow> string \<Rightarrow> string \<Rightarrow> bool \<Rightarrow> bool \<Rightarrow> int
      \<Rightarrow> unit action" where
  "assistant_phase rt w config p issue_url instruction create_pr draft_pr max_time =
     bind (run_claude_code_session w (p_repo_path p) (p_full_instruction p) max_time)
       (\<lambda>claude_result.
     (let session_analysis = analyze_session_output claude_result in
      if \<not> an_success session_analysis then
        bind (update (\<lambda>r. r\<lparr>res_error := Some ''Claude Code session failed'',
                              res_details := Some session_analysis\<rparr>)) (\<lambda>_.
        bind (clock w) (\<lambda>t.
        notify_session_status rt w (NotificationManager_init config) ''failed'' issue_url
          (no_details
             \<lparr>d_timestamp := Some (JStr (isoformat t)),
              d_summary := Some (JStr ''Claude Code session failed''),
              d_errors := Some (map JStr (an_errors session_analysis))\<rparr>)))
      else
        bind (bind (call GitIsDirty (git_is_dirty w)) (\<lambda>dirty.
              if dirty then ret True
              else bind (call GitUntracked (git_untracked_files w)) (\<lambda>files. ret (files \<noteq> []))))
          (\<lambda>changed.
        bind (if changed
              then commit_and_publish rt w config p issue_url instruction create_pr draft_pr
                     session_analysis
              else no_changes rt w config issue_url) (\<lambda>_.
        bind (clock w) (\<lambda>session_end.
        update (\<lambda>r. r\<lparr>res_end_time := Some (isoformat session_end),
                        res_duration :=
                          Some (micros session_end - micros (p_session_start p))\<rparr>))))))"

text \<open>
  The handler of the \<^verbatim>\<open>try\<close> block: the message of the exception goes into the result,
  with the time, and the error is announced. Exceptions that are no \<^verbatim>\<open>Exception\<close> pass.
\<close>

definition session_failed ::
    "runtime \<Rightarrow> world \<Rightarrow> Config \<Rightarrow> string \<Rightarrow> exn \<Rightarrow> unit action" where
  "session_failed rt w config issue_url e =
     bind (update (\<lambda>r. r\<lparr>res_error := Some (str_exn rt e)\<rparr>)) (\<lambda>_.
     bind (clock w) (\<lambda>t.
     bind (update (\<lambda>r. r\<lparr>res_end_time := Some (isoformat t)\<rparr>)) (\<lambda>_.
     bind (clock w) (\<lambda>t.
     notify_session_status rt w (NotificationManager_init config) ''error'' issue_url
       (no_details
          \<lparr>d_timestamp := Some (JStr (isoformat t)),
           d_summary := Some (JStr (''Session failed with error: '' @ str_exn rt e)),
           d_errors := Some [JStr (str_exn rt e)]\<rparr>)))))"

definition guarded ::
    "runtime \<Rightarrow> world \<Rightarrow> Config \<Rightarrow> string \<Rightarrow> unit action \<Rightarrow> result action" where
  "guarded rt w config issue_url body =
     bind (try_except body (session_failed rt w config issue_url)) (\<lambda>_. (\<lambda>s. (Inr (res s), s)))"

definition session_body ::
    "runtime \<Rightarrow> world \<Rightarrow> Config \<Rightarrow> reading \<Rightarrow> string \<Rightarrow> string \<Rightarrow> string option \<Rightarrow> bool \<Rightarrow> bool
      \<Rightarrow> unit action" where
  "session_body rt w config session_start issue_url instruction branch_name create_pr draft_pr =
     bind (session_setup rt w config session_start issue_url instruction branch_name) (\<lambda>p.
     bind (lift (read_timeout config)) (\<lambda>max_time.
     assistant_phase rt w config p issue_url instruction create_pr draft_pr max_time))"

text \<open>
  \<^verbatim>\<open>run_session\<close> from a list of earlier events: the clock is read, the result dictionary
  is made, the \<^verbatim>\<open>try\<close> block runs under its handler, and the dictionary is returned.
\<close>

definition run_session ::
    "runtime \<Rightarrow> world \<Rightarrow> Config \<Rightarrow> string \<Rightarrow> string \<Rightarrow> string option \<Rightarrow> bool \<Rightarrow> bool
      \<Rightarrow> event list \<Rightarrow> (exn + result) \<times> session" where
  "run_session rt w config issue_url instruction branch_name create_pr draft_pr events =
     (let session_start = now w events;
          s = \<lparr>res = initial_result issue_url instruction session_start,
               trace = events @ [ClockRead]\<rparr>
      in guarded rt w config issue_url
           (session_body rt w config session_start issue_url instruction branch_name create_pr
              draft_pr) s)"
section \<open>Properties\<close>

subsection \<open>Parsing an issue URL\<close>

lemma is_digit_digit_char: "d < 10 \<Longrightarrow> is_digit (digit_char d)"
  by (simp add: is_digit_def digit_char_def)

lemma digit_val_digit_char: "d < 10 \<Longrightarrow> digit_val (digit_char d) = d"
  by (simp add: digit_val_def digit_char_def)

lemma int_digits_all:
  "\<forall>c\<in>set ds. is_digit c \<Longrightarrow>
   int_digits acc k ds = Some (foldl (\<lambda>a c. 10 * a + digit_val c) acc ds, k + length ds)"
  by (induction acc k ds rule: int_digits.induct) auto

lemma show_nat_digits: "\<forall>c\<in>set (show_nat n). is_digit c"
proof (induction n rule: show_nat.induct)
  case (1 n)
  then show ?case
    by (subst show_nat.simps) (auto simp: is_digit_digit_char)
qed

lemma show_nat_value: "foldl (\<lambda>a c. 10 * a + digit_val c) 0 (show_nat n) = n"
proof (induction n rule: show_nat.induct)
  case (1 n)
  then show ?case
    by (subst show_nat.simps) (auto simp: digit_val_digit_char)
qed

lemma show_nat_not_Nil: "show_nat n \<noteq> []"
  by (subst show_nat.simps) simp

lemma digit_not_space: "is_digit c \<Longrightarrow> \<not> int_space c"
  by (auto simp: is_digit_def int_space_def)

lemma digit_not_special: "is_digit c \<Longrightarrow> c \<noteq> CHR ''/'' \<and> c \<noteq> CHR ''-'' \<and> c \<noteq> CHR ''+''"
  by (auto simp: is_digit_def)

lemma rstrip_keep:
  assumes "s \<noteq> []" and "\<not> P (last s)"
  shows "rev (dropWhile P (rev s)) = s"
proof -
  from assms have "rev s = last s # rev (butlast s)"
    by (metis append_butlast_last_id rev.simps(2) rev_append rev_rev_ident append_Nil rev_singleton_conv)
  with assms show ?thesis by (metis dropWhile.simps(2) rev_rev_ident)
qed

lemma int_strip_id:
  assumes "s \<noteq> []" and "\<not> int_space (hd s)" and "\<not> int_space (last s)"
  shows "int_strip s = s"
proof -
  from assms have "dropWhile int_space s = s" by (cases s) auto
  with assms show ?thesis by (simp add: int_strip_def rstrip_keep)
qed

lemma py_nat_show_nat:
  "int_digits 0 0 (show_nat n) = Some (n, length (show_nat n))"
  by (simp add: int_digits_all show_nat_digits show_nat_value)

lemma int_digits_Cons:
  "is_digit c \<Longrightarrow> int_digits 0 0 (c # cs) = int_digits (digit_val c) 1 cs"
  by (cases cs) auto

lemma py_int_show_int:
  assumes "lim = 0 \<or> length (show_nat (nat \<bar>i\<bar>)) \<le> lim"
  shows "py_int lim (show_int i) = Inr i"
proof -
  define ds where "ds = show_nat (nat \<bar>i\<bar>)"
  have ne: "ds \<noteq> []" and dg: "\<forall>c\<in>set ds. is_digit c"
    by (simp_all add: ds_def show_nat_not_Nil show_nat_digits)
  then obtain c cs where ds: "ds = c # cs" by (cases ds) auto
  have c: "is_digit c" using dg ds by simp
  have l: "is_digit (last ds)" using dg ne by simp
  have run: "int_digits (digit_val c) 1 cs = Some (nat \<bar>i\<bar>, length ds)"
    using py_nat_show_nat [of "nat \<bar>i\<bar>"] c by (simp add: ds_def [symmetric] ds int_digits_Cons)
  have lim: "\<not> (0 < lim \<and> lim < length ds)" using assms by (auto simp: ds_def)
  show ?thesis
  proof (cases "i < 0")
    case True
    then have s: "show_int i = CHR ''-'' # ds" by (simp add: show_int_def ds_def)
    have "\<not> int_space CHR ''-''" by (simp add: int_space_def)
    moreover have "\<not> int_space (last ds)" using l by (rule digit_not_space)
    ultimately have "int_strip (CHR ''-'' # ds) = CHR ''-'' # ds"
      using ne by (intro int_strip_id) simp_all
    then show ?thesis
      using True run lim c by (auto simp: py_int_def s ds Let_def)
  next
    case False
    then have s: "show_int i = ds" by (simp add: show_int_def ds_def)
    have "\<not> int_space (hd ds)" using c ds by (simp add: digit_not_space)
    moreover have "\<not> int_space (last ds)" using l by (rule digit_not_space)
    ultimately have "int_strip ds = ds"
      using ne by (intro int_strip_id) simp_all
    then show ?thesis
      using False run lim c digit_not_special [OF c] by (auto simp: py_int_def s ds Let_def)
  qed
qed

lemma split_char_free: "c \<notin> set s \<Longrightarrow> split_char c s = [s]"
proof -
  assume "c \<notin> set s"
  then have d: "dropWhile (\<lambda>x. x \<noteq> c) s = []" by auto
  show ?thesis by (subst split_char.simps) (simp only: d list.case)
qed

lemma split_char_append: "c \<notin> set a \<Longrightarrow> split_char c (a @ c # b) = a # split_char c b"
proof -
  assume a: "c \<notin> set a"
  then have d: "dropWhile (\<lambda>x. x \<noteq> c) (a @ c # b) = c # b"
    by (auto simp: dropWhile_append)
  from a have t: "takeWhile (\<lambda>x. x \<noteq> c) (a @ c # b) = a"
    by (auto simp: takeWhile_append)
  show ?thesis by (subst split_char.simps) (simp only: d t list.case)
qed

lemma rstrip_append:
  assumes "a \<noteq> []" and "last a \<noteq> c"
  shows "rev (dropWhile (\<lambda>x. x = c) (rev (a @ b))) = a @ rev (dropWhile (\<lambda>x. x = c) (rev b))"
proof (cases "\<forall>x\<in>set b. x = c")
  case True
  then have "dropWhile (\<lambda>x. x = c) (rev b) = []" by simp
  moreover have "dropWhile (\<lambda>x. x = c) (rev b @ rev a) = dropWhile (\<lambda>x. x = c) (rev a)"
    using True by (simp add: dropWhile_append)
  moreover have "rev (dropWhile (\<lambda>x. x = c) (rev a)) = a"
    using assms by (intro rstrip_keep) auto
  ultimately show ?thesis by simp
next
  case False
  then have "dropWhile (\<lambda>x. x = c) (rev b @ rev a) = dropWhile (\<lambda>x. x = c) (rev b) @ rev a"
    by (auto simp: dropWhile_append)
  then show ?thesis by simp
qed

lemma rstrip_tail:
  assumes "t = [] \<or> hd t = c"
  shows "rev (dropWhile (\<lambda>x. x = c) (rev t)) = [] \<or> hd (rev (dropWhile (\<lambda>x. x = c) (rev t))) = c"
proof (cases "\<forall>x\<in>set t. x = c")
  case True
  then show ?thesis by simp
next
  case False
  then obtain u where "dropWhile (\<lambda>x. x = c) (rev t) \<noteq> []" by simp
  have "t \<noteq> []" using False by auto
  have "\<exists>ys. rev t = ys @ dropWhile (\<lambda>x. x = c) (rev t)"
    by (metis takeWhile_dropWhile_id)
  then obtain ys where "rev t = ys @ dropWhile (\<lambda>x. x = c) (rev t)" ..
  then have "t = rev (dropWhile (\<lambda>x. x = c) (rev t)) @ rev ys"
    by (metis rev_append rev_rev_ident)
  with \<open>dropWhile (\<lambda>x. x = c) (rev t) \<noteq> []\<close> have "hd t = hd (rev (dropWhile (\<lambda>x. x = c) (rev t)))"
    by (metis hd_append2 rev_is_Nil_conv)
  with assms \<open>t \<noteq> []\<close> show ?thesis by simp
qed

lemma parse_issue_url_shape:
  assumes up: "urlparse_path rt url = Inr (''/'' @ owner @ ''/'' @ repo @ ''/issues/'' @ num @ tail)"
    and ow: "owner \<noteq> []" "CHR ''/'' \<notin> set owner"
    and re: "CHR ''/'' \<notin> set repo"
    and nu: "num \<noteq> []" "CHR ''/'' \<notin> set num"
    and tl: "tail = [] \<or> hd tail = CHR ''/''"
  shows "parse_issue_url rt url =
    (case py_int (int_max_str_digits rt) num of Inl e \<Rightarrow> Inl e | Inr n \<Rightarrow> Inr (owner, repo, n))"
proof -
  define t where "t = rev (dropWhile (\<lambda>x. x = CHR ''/'') (rev tail))"
  define A where "A = owner @ ''/'' @ repo @ ''/issues/'' @ num"
  have "last num \<in> set num" using nu(1) by (rule last_in_set)
  with nu(2) have ln: "last num \<noteq> CHR ''/''" by metis
  have A: "A \<noteq> []" "last A \<noteq> CHR ''/''"
    using nu(1) ln by (simp_all add: A_def)
  have "hd owner \<noteq> CHR ''/''" using ow by (cases owner) auto
  then have lead: "dropWhile (\<lambda>x. x = CHR ''/'') (CHR ''/'' # A @ tail) = A @ tail"
    using ow by (cases owner) (auto simp: A_def)
  have strip: "strip_char CHR ''/'' (CHR ''/'' # A @ tail) = A @ t"
    unfolding strip_char_def lead t_def using A by (rule rstrip_append)
  have t: "t = [] \<or> hd t = CHR ''/''"
    unfolding t_def using tl by (rule rstrip_tail)
  have iss: "CHR ''/'' \<notin> set ''issues''" by simp
  have At: "A @ t = owner @ CHR ''/'' # (repo @ CHR ''/'' # (''issues'' @ CHR ''/'' # (num @ t)))"
    by (simp add: A_def)
  have three: "split_char CHR ''/'' (A @ t) =
      owner # repo # ''issues'' # split_char CHR ''/'' (num @ t)"
    unfolding At
    by (simp only: split_char_append [OF ow(2)] split_char_append [OF re] split_char_append [OF iss])
  have "\<exists>rest. split_char CHR ''/'' (num @ t) = num # rest"
  proof (cases t)
    case Nil
    then show ?thesis using nu(2) by (simp add: split_char_free)
  next
    case (Cons x xs)
    with t have "t = CHR ''/'' # xs" by simp
    then show ?thesis by (simp only: split_char_append [OF nu(2)]) simp
  qed
  with three have "\<exists>rest. split_char CHR ''/'' (A @ t) = owner # repo # ''issues'' # num # rest"
    by auto
  then obtain rest where sp: "split_char CHR ''/'' (A @ t) = owner # repo # ''issues'' # num # rest" ..
  have path: "''/'' @ owner @ ''/'' @ repo @ ''/issues/'' @ num @ tail = CHR ''/'' # A @ tail"
    by (simp add: A_def)
  show ?thesis
    unfolding parse_issue_url_def up path
    by (simp add: strip sp Let_def split: sum.splits)
qed

lemma py_int_error: "py_int lim s = Inl e \<Longrightarrow> e = InvalidLiteral s"
  by (auto simp: py_int_def Let_def split: list.splits if_splits option.splits)

text \<open>
  Claim C8. \<open>parse_issue_url\<close> returns exactly \<open>(owner, repo, number)\<close> for every URL whose
  path is \<^verbatim>\<open>/{owner}/{repo}/issues/{number}\<close> (owner not empty, no slash inside owner or
  repo, the number a decimal numeral within the interpreter's digit limit), and it fails
  with a \<^verbatim>\<open>ValueError\<close> whenever the path, stripped of outer slashes and split at
  slashes, has no third segment equal to \<^verbatim>\<open>issues\<close> or no fourth segment that
  \<^verbatim>\<open>int()\<close> reads as an integer.
\<close>

theorem parse_issue_url_roundtrip:
  assumes "urlparse_path rt issue_url = Inr path"
  shows "(\<forall>owner repo n.
            path = ''/'' @ owner @ ''/'' @ repo @ ''/issues/'' @ show_nat n \<and>
            owner \<noteq> [] \<and> CHR ''/'' \<notin> set owner \<and> CHR ''/'' \<notin> set repo \<and>
            (int_max_str_digits rt = 0 \<or> length (show_nat n) \<le> int_max_str_digits rt) \<longrightarrow>
            parse_issue_url rt issue_url = Inr (owner, repo, int n)) \<and>
         (let path_parts = split_char CHR ''/'' (strip_char CHR ''/'' path) in
            (length path_parts < 3 \<or> path_parts ! 2 \<noteq> ''issues'' \<or>
             length path_parts < 4 \<or>
             (\<forall>n. py_int (int_max_str_digits rt) (path_parts ! 3) \<noteq> Inr n) \<longrightarrow>
             (\<exists>e. parse_issue_url rt issue_url = Inl e \<and> class_of e = ''ValueError'')))"
proof (intro conjI allI impI)
  fix owner repo n
  assume h: "path = ''/'' @ owner @ ''/'' @ repo @ ''/issues/'' @ show_nat n \<and>
            owner \<noteq> [] \<and> CHR ''/'' \<notin> set owner \<and> CHR ''/'' \<notin> set repo \<and>
            (int_max_str_digits rt = 0 \<or> length (show_nat n) \<le> int_max_str_digits rt)"
  have nd: "CHR ''/'' \<notin> set (show_nat n)"
    using show_nat_digits [of n] digit_not_special by blast
  have up: "urlparse_path rt issue_url =
      Inr (''/'' @ owner @ ''/'' @ repo @ ''/issues/'' @ show_nat n @ [])"
    using assms h by simp
  have "py_int (int_max_str_digits rt) (show_int (int n)) = Inr (int n)"
    using h by (intro py_int_show_int) simp
  then have "py_int (int_max_str_digits rt) (show_nat n) = Inr (int n)"
    by (simp add: show_int_def)
  with parse_issue_url_shape [OF up _ _ _ show_nat_not_Nil nd] h
  show "parse_issue_url rt issue_url = Inr (owner, repo, int n)" by simp
next
  show "let path_parts = split_char CHR ''/'' (strip_char CHR ''/'' path) in
            (length path_parts < 3 \<or> path_parts ! 2 \<noteq> ''issues'' \<or>
             length path_parts < 4 \<or>
             (\<forall>n. py_int (int_max_str_digits rt) (path_parts ! 3) \<noteq> Inr n) \<longrightarrow>
             (\<exists>e. parse_issue_url rt issue_url = Inl e \<and> class_of e = ''ValueError''))"
    using assms
    by (auto simp: parse_issue_url_def Let_def split: sum.splits dest!: py_int_error)
qed

theorem parse_issue_url_roundtrip_witness:
  "parse_issue_url \<lparr>urlparse_path = (\<lambda>u. Inr (drop 12 u)), int_max_str_digits = 4300,
       str_exn = class_of\<rparr> ''https://host/ownerA/repoB/issues/42'' =
     Inr (''ownerA'', ''repoB'', 42) \<and>
   (\<exists>e. parse_issue_url \<lparr>urlparse_path = (\<lambda>u. Inr (drop 12 u)), int_max_str_digits = 4300,
       str_exn = class_of\<rparr> ''https://host/ownerA/repoB/pull/42'' = Inl e \<and>
      class_of e = ''ValueError'')"
proof -
  let ?rt = "\<lparr>urlparse_path = (\<lambda>u. Inr (drop 12 u)), int_max_str_digits = 4300,
       str_exn = class_of\<rparr>"
  have n: "show_nat 42 = ''42''" by code_simp
  have 1: "urlparse_path ?rt ''https://host/ownerA/repoB/issues/42'' = Inr ''/ownerA/repoB/issues/42''"
    by simp
  have 2: "urlparse_path ?rt ''https://host/ownerA/repoB/pull/42'' = Inr ''/ownerA/repoB/pull/42''"
    by simp
  have s: "split_char CHR ''/'' (strip_char CHR ''/'' ''/ownerA/repoB/pull/42'') =
      [''ownerA'', ''repoB'', ''pull'', ''42'']"
    by (simp add: strip_char_def split_char.simps)
  from parse_issue_url_roundtrip [OF 1] have
    "parse_issue_url ?rt ''https://host/ownerA/repoB/issues/42'' = Inr (''ownerA'', ''repoB'', int 42)"
    by (elim conjE allE [of _ "''ownerA''"] allE [of _ "''repoB''"] allE [of _ "42::nat"])
       (simp add: n)
  moreover from parse_issue_url_roundtrip [OF 2] have
    "\<exists>e. parse_issue_url ?rt ''https://host/ownerA/repoB/pull/42'' = Inl e \<and>
      class_of e = ''ValueError''"
    by (simp add: s)
  ultimately show ?thesis by simp
qed

text \<open>
  Claim C10. Only the first four path segments are examined: a path
  \<^verbatim>\<open>/{owner}/{repo}/issues/{number}\<close> followed by nothing or by a slash and any further text
  (for instance \<^verbatim>\<open>/comments\<close>) parses to \<open>(owner, repo, number)\<close>, also when the number
  is negative.
\<close>

theorem parse_issue_url_first_four:
  assumes "urlparse_path rt issue_url =
             Inr (''/'' @ owner @ ''/'' @ repo @ ''/issues/'' @ show_int n @ tail)"
    and "owner \<noteq> []" and "CHR ''/'' \<notin> set owner" and "CHR ''/'' \<notin> set repo"
    and "tail = [] \<or> hd tail = CHR ''/''"
    and "int_max_str_digits rt = 0 \<or> length (show_nat (nat \<bar>n\<bar>)) \<le> int_max_str_digits rt"
  shows "parse_issue_url rt issue_url = Inr (owner, repo, n)"
proof -
  have nd: "CHR ''/'' \<notin> set (show_int n)"
    using show_nat_digits [of "nat (- n)"] show_nat_digits [of "nat n"] digit_not_special
    by (auto simp: show_int_def)
  have ne: "show_int n \<noteq> []" by (simp add: show_int_def show_nat_not_Nil)
  have "py_int (int_max_str_digits rt) (show_int n) = Inr n"
    using assms(6) by (rule py_int_show_int)
  with parse_issue_url_shape [OF assms(1-4) ne nd assms(5)] show ?thesis by simp
qed

theorem parse_issue_url_first_four_witness:
  "parse_issue_url \<lparr>urlparse_path = (\<lambda>u. Inr (drop 12 u)), int_max_str_digits = 4300,
       str_exn = class_of\<rparr> ''https://host/ownerA/repoB/issues/42/comments'' =
     Inr (''ownerA'', ''repoB'', 42) \<and>
   parse_issue_url \<lparr>urlparse_path = (\<lambda>u. Inr (drop 12 u)), int_max_str_digits = 4300,
       str_exn = class_of\<rparr> ''https://host/ownerA/repoB/issues/-42'' =
     Inr (''ownerA'', ''repoB'', - 42)"
proof -
  let ?rt = "\<lparr>urlparse_path = (\<lambda>u. Inr (drop 12 u)), int_max_str_digits = 4300,
       str_exn = class_of\<rparr>"
  have n: "show_int 42 = ''42''" "show_int (- 42) = ''-42''" "show_nat 42 = ''42''"
    by code_simp+
  have "parse_issue_url ?rt ''https://host/ownerA/repoB/issues/42/comments'' =
     Inr (''ownerA'', ''repoB'', 42)"
    by (rule parse_issue_url_first_four [where tail = "''/comments''"]) (simp_all add: n)
  moreover have "parse_issue_url ?rt ''https://host/ownerA/repoB/issues/-42'' =
     Inr (''ownerA'', ''repoB'', - 42)"
    by (rule parse_issue_url_first_four [where tail = "[]"]) (simp_all add: n)
  ultimately show ?thesis by simp
qed


subsection \<open>The prompt\<close>

lemma join_text_append:
  "ys \<noteq> [] \<Longrightarrow> join_text ''\<newline>'' (xs @ ys) = text_lines xs @ join_text ''\<newline>'' ys"
proof (induction xs)
  case Nil
  then show ?case by (simp add: text_lines_def)
next
  case (Cons x xs)
  then obtain z zs where "xs @ ys = z # zs" by (cases "xs @ ys") auto
  with Cons show ?case by (simp add: text_lines_def)
qed

lemma map_JStr_eq: "map JStr a = map JStr b \<longleftrightarrow> a = b"
  by (rule inj_map_eq_map) (simp add: inj_on_def)

lemma str_items_strs: "str_items i (map JStr ls) = Inr ls"
  by (induction ls arbitrary: i) simp_all

lemma str_items_Inr: "str_items i xs = Inr ls \<longleftrightarrow> xs = map JStr ls"
proof
  show "str_items i xs = Inr ls \<Longrightarrow> xs = map JStr ls"
    by (induction i xs arbitrary: ls rule: str_items.induct) (auto split: sum.splits)
qed (simp add: str_items_strs)

lemma py_join_Inr:
  "py_join sep xs = Inr t \<longleftrightarrow> (\<exists>ls. xs = map JStr ls \<and> t = join_text sep ls)"
  by (auto simp: py_join_def str_items_Inr str_items_strs map_JStr_eq split: sum.splits)

lemma py_join_strs: "py_join sep (map JStr ls) = Inr (join_text sep ls)"
  by (simp add: py_join_Inr map_JStr_eq)

lemma py_str_JStr: "map py_str (map JStr ls) = ls"
  by (induction ls) simp_all

lemma text_lines_empty: "text_lines ls = [] \<longleftrightarrow> ls = []"
  by (cases ls) (simp_all add: text_lines_def)

lemma opt_block_empty:
  "opt_block issue_block d = [] \<longleftrightarrow> \<not> dict_truthy d"
  "opt_block repo_block d = [] \<longleftrightarrow> \<not> dict_truthy d"
  by (cases d; simp add: opt_block_def issue_block_def repo_block_def)+

lemma opt_block_None: "opt_block f None = []"
  by (simp add: opt_block_def)

lemma prompt_eq:
  "create_instruction_prompt instruction issue_data repo_data =
     py_join ''\<newline>'' (prompt_head instruction @ opt_block issue_block issue_data @
        opt_block repo_block repo_data @ prompt_task)"
  by (simp add: create_instruction_prompt_def Let_def)

lemma prompt_task_not_Nil: "prompt_task \<noteq> []"
  by (simp add: prompt_task_def)

lemma strs_map: "(\<forall>v\<in>set xs. \<exists>s. v = JStr s) \<Longrightarrow> map JStr (map py_str xs) = xs"
  by (induction xs) auto

lemma prompt_head_strs: "\<forall>v\<in>set (prompt_head instruction). \<exists>s. v = JStr s"
  by (simp add: prompt_head_def)

lemma prompt_task_strs: "\<forall>v\<in>set prompt_task. \<exists>s. v = JStr s"
  by (simp add: prompt_task_def)

lemma repo_block_strs: "\<forall>v\<in>set (opt_block repo_block repo_data). \<exists>s. v = JStr s"
  by (cases repo_data) (auto simp: opt_block_def repo_block_def)

lemma issue_block_strs:
  assumes "\<forall>d b. issue_data = Some d \<longrightarrow> map_of d ''body'' = Some b \<longrightarrow> (\<exists>s. b = JStr s)"
  shows "\<forall>v\<in>set (opt_block issue_block issue_data). \<exists>s. v = JStr s"
proof (cases issue_data)
  case None
  then show ?thesis by (simp add: opt_block_def)
next
  case (Some d)
  with assms have "\<exists>s. dict_get d ''body'' (JStr ''No description provided.'') = JStr s"
    by (cases "map_of d ''body''") (auto simp: dict_get_def)
  with Some show ?thesis by (auto simp: opt_block_def issue_block_def)
qed

lemma prompt_of_strs:
  assumes "\<forall>v\<in>set bi. \<exists>s. v = JStr s" and "\<forall>v\<in>set br. \<exists>s. v = JStr s"
  shows "py_join ''\<newline>'' (prompt_head instruction @ bi @ br @ prompt_task) =
     Inr (text_lines (map py_str (prompt_head instruction)) @ text_lines (map py_str bi)
          @ text_lines (map py_str br) @ join_text ''\<newline>'' (map py_str prompt_task))"
proof -
  define ls where "ls = map py_str (prompt_head instruction) @ map py_str bi @ map py_str br"
  define lt where "lt = map py_str prompt_task"
  have ne: "lt \<noteq> []" using prompt_task_not_Nil by (simp add: lt_def)
  have "prompt_head instruction @ bi @ br @ prompt_task = map JStr (ls @ lt)"
    using strs_map [OF prompt_head_strs, of instruction] strs_map [OF prompt_task_strs]
      strs_map [OF assms(1)] strs_map [OF assms(2)] by (simp add: ls_def lt_def)
  then have "py_join ''\<newline>'' (prompt_head instruction @ bi @ br @ prompt_task) =
      Inr (join_text ''\<newline>'' (ls @ lt))"
    by (simp only: py_join_strs)
  also have "join_text ''\<newline>'' (ls @ lt) = text_lines ls @ join_text ''\<newline>'' lt"
    by (rule join_text_append [OF ne])
  also have "text_lines ls = text_lines (map py_str (prompt_head instruction))
      @ text_lines (map py_str bi) @ text_lines (map py_str br)"
    by (simp add: ls_def text_lines_def)
  finally show ?thesis by (simp add: lt_def)
qed

text \<open>
  The text that \<^verbatim>\<open>create_instruction_prompt\<close> returns, for every instruction, every
  repository context and every issue context whose body, when the key is there, is a
  string: the preamble with the instruction line, the lines of the issue block, the
  lines of the repository block and the task checklist, a block being left out exactly
  when its context is \<^verbatim>\<open>None\<close> or empty (\<open>opt_block_empty\<close>). No other key of either
  context can make the call raise, since every other item goes through an f-string.
\<close>

proposition create_instruction_prompt_text:
  assumes "\<forall>d b. issue_data = Some d \<longrightarrow> map_of d ''body'' = Some b \<longrightarrow> (\<exists>s. b = JStr s)"
  shows "create_instruction_prompt instruction issue_data repo_data =
     Inr (text_lines (map py_str (prompt_head instruction))
          @ text_lines (map py_str (opt_block issue_block issue_data))
          @ text_lines (map py_str (opt_block repo_block repo_data))
          @ join_text ''\<newline>'' (map py_str prompt_task))"
  unfolding prompt_eq by (rule prompt_of_strs [OF issue_block_strs [OF assms] repo_block_strs])

lemma str_items_body:
  assumes "\<forall>s. b \<noteq> JStr s"
  shows "str_items i (JStr a1 # JStr a2 # JStr a3 # JStr a4 # JStr a5 # JStr a6 # b # rest) =
     Inl (JoinTypeError (i + 6))"
  using assms by (cases b) simp_all

lemma str_items_append:
  "str_items i (xs @ ys) =
     (case str_items i xs of
        Inl e \<Rightarrow> Inl e
      | Inr a \<Rightarrow> (case str_items (i + length xs) ys of Inl e \<Rightarrow> Inl e | Inr b \<Rightarrow> Inr (a @ b)))"
  by (induction i xs rule: str_items.induct) (auto split: sum.splits)

text \<open>
  Claim C9. \<^verbatim>\<open>create_instruction_prompt\<close> reads no state, so equal arguments give equal
  results; but leaving out the issue context does not always leave out just the issue
  block. The body is appended as the dictionary holds it, the default standing in only
  for a missing key, so an issue whose \<^verbatim>\<open>body\<close> is there and is not a string (\<^verbatim>\<open>null\<close> for
  an issue without description) makes \<^verbatim>\<open>join\<close> raise a \<^verbatim>\<open>TypeError\<close> at item 10, for
  every instruction and every repository context, while the same call without the issue
  context returns the preamble, the repository block and the checklist.
\<close>

theorem create_instruction_prompt_null_body:
  assumes "map_of issue ''body'' = Some b" and "\<forall>s. b \<noteq> JStr s"
  shows "create_instruction_prompt instruction (Some issue) repo_data = Inl (JoinTypeError 10)
     \<and> create_instruction_prompt instruction None repo_data =
         Inr (text_lines (map py_str (prompt_head instruction))
              @ text_lines (map py_str (opt_block repo_block repo_data))
              @ join_text ''\<newline>'' (map py_str prompt_task))"
proof
  from assms(1) have ne: "issue \<noteq> []" by auto
  have b: "dict_get issue ''body'' (JStr ''No description provided.'') = b"
    using assms(1) by (simp add: dict_get_def)
  have h: "str_items 0 (prompt_head instruction) = Inr (map py_str (prompt_head instruction))"
    by (simp add: prompt_head_def)
  have l: "length (prompt_head instruction) = 4" by (simp add: prompt_head_def)
  have "str_items 4 (opt_block issue_block (Some issue)) = Inl (JoinTypeError (4 + 6))"
    using ne by (simp only: opt_block_def issue_block_def option.case if_False b
        str_items_body [OF assms(2)])
  then have "str_items 0 (prompt_head instruction @ opt_block issue_block (Some issue)
      @ opt_block repo_block repo_data @ prompt_task) = Inl (JoinTypeError 10)"
    by (simp add: str_items_append h l)
  then show "create_instruction_prompt instruction (Some issue) repo_data = Inl (JoinTypeError 10)"
    by (simp add: prompt_eq py_join_def)
next
  have "create_instruction_prompt instruction None repo_data =
     Inr (text_lines (map py_str (prompt_head instruction))
          @ text_lines (map py_str (opt_block issue_block None))
          @ text_lines (map py_str (opt_block repo_block repo_data))
          @ join_text ''\<newline>'' (map py_str prompt_task))"
    unfolding prompt_eq by (rule prompt_of_strs [OF _ repo_block_strs]) (simp add: opt_block_def)
  then show "create_instruction_prompt instruction None repo_data =
         Inr (text_lines (map py_str (prompt_head instruction))
              @ text_lines (map py_str (opt_block repo_block repo_data))
              @ join_text ''\<newline>'' (map py_str prompt_task))"
    by (simp add: opt_block_def text_lines_def)
qed

text \<open>
  The theorem at an issue as the host's API returns it when no description was written,
  with a repository context: the call raises, the call without the issue returns the text.
\<close>

theorem create_instruction_prompt_null_body_witness:
  "create_instruction_prompt ''Fix the crash'' (Some [(''title'', JStr ''Crash on start''), (''number'', JInt 42), (''state'', JStr ''open''), (''body'', JNull)]) (Some [(''full_name'', JStr ''ownerA/repoB''), (''description'', JNull), (''language'', JStr ''Python''), (''default_branch'', JStr ''main'')]) = Inl (JoinTypeError 10)
   \<and> create_instruction_prompt ''Fix the crash'' None (Some [(''full_name'', JStr ''ownerA/repoB''), (''description'', JNull), (''language'', JStr ''Python''), (''default_branch'', JStr ''main'')]) =
       Inr ''You are an autonomous software development assistant working on a GitHub repository.\<newline>\<newline>Primary Instruction: Fix the crash\<newline>\<newline>Repository Context:\<newline>Name: ownerA/repoB\<newline>Description: None\<newline>Language: Python\<newline>Default Branch: main\<newline>\<newline>Your Task:\<newline>1. Analyze the codebase and understand the current implementation\<newline>2. Implement the requested changes or fixes\<newline>3. Ensure code quality and follow existing patterns\<newline>4. Write or update tests as appropriate\<newline>5. Make sure the changes work correctly\<newline>\<newline>Work autonomously and systematically. Create a plan and execute it step by step.\<newline>Focus on delivering a complete, working solution.''"
proof -
  have t: "text_lines (map py_str (prompt_head ''Fix the crash''))
         @ text_lines (map py_str (opt_block repo_block (Some [(''full_name'', JStr ''ownerA/repoB''), (''description'', JNull), (''language'', JStr ''Python''), (''default_branch'', JStr ''main'')])))
         @ join_text ''\<newline>'' (map py_str prompt_task) = ''You are an autonomous software development assistant working on a GitHub repository.\<newline>\<newline>Primary Instruction: Fix the crash\<newline>\<newline>Repository Context:\<newline>Name: ownerA/repoB\<newline>Description: None\<newline>Language: Python\<newline>Default Branch: main\<newline>\<newline>Your Task:\<newline>1. Analyze the codebase and understand the current implementation\<newline>2. Implement the requested changes or fixes\<newline>3. Ensure code quality and follow existing patterns\<newline>4. Write or update tests as appropriate\<newline>5. Make sure the changes work correctly\<newline>\<newline>Work autonomously and systematically. Create a plan and execute it step by step.\<newline>Focus on delivering a complete, working solution.''"
    by code_simp
  have m: "map_of [(''title'', JStr ''Crash on start''), (''number'', JInt 42), (''state'', JStr ''open''), (''body'', JNull)] ''body'' = Some JNull"
    by simp
  from create_instruction_prompt_null_body [OF m, of "''Fix the crash''" "Some [(''full_name'', JStr ''ownerA/repoB''), (''description'', JNull), (''language'', JStr ''Python''), (''default_branch'', JStr ''main'')]"]
  show ?thesis by (simp only: t json.distinct simp_thms)
qed

subsection \<open>Settings\<close>

lemma map_of_dict_set: "map_of (dict_set d k v) k' = (if k' = k then Some v else map_of d k')"
  by (induction d k v rule: dict_set.induct) auto

lemma set_item_Inr: "set_item base k v = Inr base' \<Longrightarrow> \<exists>d. base = CDict d \<and> base' = CDict (dict_set d k v)"
  by (cases base) auto

lemma lookup_set_item:
  "set_item base k v = Inr base' \<Longrightarrow>
     lookup base' (k' # ks) = (if k' = k then lookup v ks else lookup base (k' # ks))"
  by (auto dest!: set_item_Inr simp: map_of_dict_set)

lemma merge_dict_keep:
  "merge_dict base ov = Inr m \<Longrightarrow> (\<forall>v. (k, v) \<in> set ov \<longrightarrow> v = CNone)
     \<Longrightarrow> lookup m (k # ks) = lookup base (k # ks)"
proof (induction base ov arbitrary: m rule: merge_dict.induct)
  case (1 base)
  then show ?case by (simp add: merge_dict.simps)
next
  case (2 base key val override)
  show ?case
  proof (cases "val = CNone")
    case True
    with "2.prems" have "merge_dict base override = Inr m" by (simp add: merge_dict.simps)
    from "2.IH"(1) [OF True this] "2.prems"(2) show ?thesis by simp
  next
    case False
    with "2.prems"(2) have ne: "key \<noteq> k" by auto
    from "2.prems"(2) have rest: "\<forall>v. (k, v) \<in> set override \<longrightarrow> v = CNone" by simp
    show ?thesis
    proof (cases val)
      case (CDict items)
      show ?thesis
      proof (cases "has_key base key")
        case (Inl e)
        with "2.prems"(1) CDict show ?thesis by (simp add: merge_dict.simps)
      next
        case (Inr b)
        show ?thesis
        proof (cases b)
          case True
          then have bt: "b = True" by simp
          from True "2.prems"(1) CDict Inr obtain sub merged base'
            where s: "get_item base key = Inr sub" "merge_dict sub items = Inr merged"
              "set_item base key merged = Inr base'" "merge_dict base' override = Inr m"
            by (auto simp: merge_dict.simps split: sum.splits)
          from "2.IH"(7) [OF CDict Inr bt s(1) s(2) s(3) s(4) rest]
          show ?thesis using ne by (simp add: lookup_set_item [OF s(3)])
        next
          case False
          then have bf: "b = False" by simp
          from False "2.prems"(1) CDict Inr obtain base'
            where s: "set_item base key val = Inr base'" "merge_dict base' override = Inr m"
            by (auto simp: merge_dict.simps split: sum.splits)
          from "2.IH"(8) [OF CDict Inr bf s(1) s(2) rest]
          show ?thesis using ne by (simp add: lookup_set_item [OF s(1)])
        qed
      qed
    next
      case CNone
      with False show ?thesis by simp
    next
      case (CBool x)
      with "2.prems"(1) obtain base'
        where s: "set_item base key val = Inr base'" "merge_dict base' override = Inr m"
        by (auto simp: merge_dict.simps split: sum.splits)
      from "2.IH"(2) [OF CBool s(1) s(2) rest]
      show ?thesis using ne by (simp add: lookup_set_item [OF s(1)])
    next
      case (CInt x)
      with "2.prems"(1) obtain base'
        where s: "set_item base key val = Inr base'" "merge_dict base' override = Inr m"
        by (auto simp: merge_dict.simps split: sum.splits)
      from "2.IH"(3) [OF CInt s(1) s(2) rest]
      show ?thesis using ne by (simp add: lookup_set_item [OF s(1)])
    next
      case (CStr x)
      with "2.prems"(1) obtain base'
        where s: "set_item base key val = Inr base'" "merge_dict base' override = Inr m"
        by (auto simp: merge_dict.simps split: sum.splits)
      from "2.IH"(4) [OF CStr s(1) s(2) rest]
      show ?thesis using ne by (simp add: lookup_set_item [OF s(1)])
    next
      case (CList x)
      with "2.prems"(1) obtain base'
        where s: "set_item base key val = Inr base'" "merge_dict base' override = Inr m"
        by (auto simp: merge_dict.simps split: sum.splits)
      from "2.IH"(5) [OF CList s(1) s(2) rest]
      show ?thesis using ne by (simp add: lookup_set_item [OF s(1)])
    qed
  qed
qed




lemma lookup_Cons_Some:
  "lookup b (k # ks) = Some w \<Longrightarrow> \<exists>d x. b = CDict d \<and> map_of d k = Some x \<and> lookup x ks = Some w"
  by (cases b) (auto split: option.splits)




lemma env_value_cases: "env_value getenv name = CNone \<or> (\<exists>s. env_value getenv name = CStr s)"
  by (simp add: env_value_def split: option.splits)


lemma env_value_case [simp]:
  "(case env_value getenv name of CDict items \<Rightarrow> f items | _ \<Rightarrow> True) = True"
  using env_value_cases [of getenv name] by auto

































lemma validate_optional_env [simp]:
  "validate_optional_str lib (env_value getenv name) = Some (getenv name)"
  by (simp add: env_value_def split: option.splits)

lemma validate_Config_claude_Inl:
  assumes "map_of d ''claude'' = Some v" and "validate_ClaudeConfig lib ''claude'' v = Inl locs"
  shows "\<exists>e. validate_Config lib (CDict d) = Inl e"
  using assms by (simp add: nested_def loc_of_def Let_def)

lemma merge_env_empty:
  "merge_dict (CDict []) (env_overrides getenv) = Inr (CDict (env_overrides getenv))"
  by (simp add: merge_dict.simps env_overrides_def)

text \<open>
  Claim C5 fails on the code. With both credentials in the environment, \<^verbatim>\<open>CLAUDE_MODEL\<close>
  not set and no configuration file, \<^verbatim>\<open>load_from_file\<close> raises a validation error at
  \<^verbatim>\<open>claude.model\<close>, whatever the other variables are: \<^verbatim>\<open>merge_dict\<close> stores the section
  \<^verbatim>\<open>claude\<close> of the overrides as it is, \<^verbatim>\<open>model\<close> being \<^verbatim>\<open>None\<close>, and the schema rejects
  \<^verbatim>\<open>None\<close> for a field that is not optional instead of taking the default. The same
  happens, or the merge raises, for every file that has no section \<^verbatim>\<open>claude\<close>. This is
  the call of \<^verbatim>\<open>test_config_from_env\<close>, which expects the default model.
\<close>

theorem load_from_file_env_only:
  assumes "getenv ''ANTHROPIC_API_KEY'' = Some k" and "getenv ''GITHUB_TOKEN'' = Some t"
    and "getenv ''CLAUDE_MODEL'' = None"
  shows "load_from_file lib None getenv = Inl (ValidationError [''claude.model''])
     \<and> (\<forall>d. map_of d ''claude'' = None \<longrightarrow>
           (\<exists>e. load_from_file lib (Some (Inr (CDict d))) getenv = Inl e))"
proof -
  have ev: "env_value getenv ''ANTHROPIC_API_KEY'' = CStr k"
    "env_value getenv ''GITHUB_TOKEN'' = CStr t" "env_value getenv ''CLAUDE_MODEL'' = CNone"
    using assms by (simp_all add: env_value_def)
  have "load_from_file lib None getenv = Inl (ValidationError [''claude.model''])"
    by (simp add: load_from_file_def merge_env_empty)
      (simp add: env_overrides_def ev nested_def loc_of_def required_def defaulted_def
        errors_def Let_def)
  moreover have "\<forall>d. map_of d ''claude'' = None \<longrightarrow>
           (\<exists>e. load_from_file lib (Some (Inr (CDict d))) getenv = Inl e)"
  proof (intro allI impI)
    fix d :: "(string \<times> cval) list"
    assume none: "map_of d ''claude'' = None"
    let ?sec = "CDict [(''api_key'', CStr k), (''model'', CNone)]"
    let ?rest = "tl (env_overrides getenv)"
    have step: "merge_dict (CDict d) (env_overrides getenv) =
        merge_dict (CDict (dict_set d ''claude'' ?sec)) ?rest"
      using none by (simp add: env_overrides_def ev merge_dict.simps)
    have bad: "validate_ClaudeConfig lib ''claude'' ?sec = Inl [''claude.model'']"
      by (simp add: required_def defaulted_def errors_def loc_of_def Let_def)
    show "\<exists>e. load_from_file lib (Some (Inr (CDict d))) getenv = Inl e"
    proof (cases "merge_dict (CDict (dict_set d ''claude'' ?sec)) ?rest")
      case (Inl e)
      with step show ?thesis by (simp add: load_from_file_def)
    next
      case (Inr m)
      have "\<forall>v. (''claude'', v) \<in> set ?rest \<longrightarrow> v = CNone"
        by (simp add: env_overrides_def)
      from merge_dict_keep [OF Inr this, of "[]"]
      have "lookup m [''claude''] = Some ?sec" by (simp add: map_of_dict_set)
      then obtain dm where dm: "m = CDict dm" "map_of dm ''claude'' = Some ?sec"
        by (auto dest!: lookup_Cons_Some)
      from validate_Config_claude_Inl [OF dm(2) bad] obtain e where
        "validate_Config lib (CDict dm) = Inl e" by blast
      with step Inr dm(1) show ?thesis by (simp add: load_from_file_def)
    qed
  qed
  ultimately show ?thesis by blast
qed

text \<open>
  The theorem at the environment of \<^verbatim>\<open>test_config_from_env\<close>, and at a file that supplies
  only the token of the host.
\<close>

theorem load_from_file_env_only_witness:
  "load_from_file \<lparr>str_lax = (\<lambda>v. None), int_lax = (\<lambda>v. None), bool_lax = (\<lambda>v. None)\<rparr> None
     [''ANTHROPIC_API_KEY'' \<mapsto> ''test-claude-key'', ''GITHUB_TOKEN'' \<mapsto> ''test-github-token'']
     = Inl (ValidationError [''claude.model''])
   \<and> load_from_file \<lparr>str_lax = (\<lambda>v. None), int_lax = (\<lambda>v. None), bool_lax = (\<lambda>v. None)\<rparr>
       (Some (Inr (CDict [(''github'', CDict [(''token'', CStr ''file-github-token'')])])))
       [''ANTHROPIC_API_KEY'' \<mapsto> ''test-claude-key'']
     = Inl (ValidationError [''claude.model''])"
proof -
  have 2: "load_from_file \<lparr>str_lax = (\<lambda>v. None), int_lax = (\<lambda>v. None), bool_lax = (\<lambda>v. None)\<rparr>
       (Some (Inr (CDict [(''github'', CDict [(''token'', CStr ''file-github-token'')])])))
       [''ANTHROPIC_API_KEY'' \<mapsto> ''test-claude-key'']
     = Inl (ValidationError [''claude.model''])" by code_simp
  have "[''ANTHROPIC_API_KEY'' \<mapsto> ''test-claude-key'', ''GITHUB_TOKEN'' \<mapsto> ''test-github-token'']
      ''ANTHROPIC_API_KEY'' = Some ''test-claude-key''"
    "[''ANTHROPIC_API_KEY'' \<mapsto> ''test-claude-key'', ''GITHUB_TOKEN'' \<mapsto> ''test-github-token'']
      ''GITHUB_TOKEN'' = Some ''test-github-token''"
    "[''ANTHROPIC_API_KEY'' \<mapsto> ''test-claude-key'', ''GITHUB_TOKEN'' \<mapsto> ''test-github-token'']
      ''CLAUDE_MODEL'' = None"
    by simp_all
  from load_from_file_env_only [OF this] 2 show ?thesis by blast
qed

text \<open>
  What does hold of the defaults: once \<^verbatim>\<open>CLAUDE_MODEL\<close> is set too, the load without a
  file returns, for every environment, the two credentials, the model, the values of the
  notification variables, and the schema's defaults for every other field.
\<close>

proposition load_from_file_defaults:
  assumes "getenv ''ANTHROPIC_API_KEY'' = Some k" and "getenv ''GITHUB_TOKEN'' = Some t"
    and "getenv ''CLAUDE_MODEL'' = Some m"
  shows "load_from_file lib None getenv =
     Inr \<lparr>claude = \<lparr>api_key = k, claude_model = m, max_tokens = 4000\<rparr>,
          github = \<lparr>github_token = t, default_branch = ''main''\<rparr>,
          notifications =
            \<lparr>discord = \<lparr>discord_enabled = False,
                 webhook_url = getenv ''DISCORD_WEBHOOK_URL'',
                 bot_token = getenv ''DISCORD_BOT_TOKEN'',
                 channel_id = getenv ''DISCORD_CHANNEL_ID''\<rparr>,
             email = \<lparr>email_enabled = False, smtp_server = getenv ''SMTP_SERVER'',
                 smtp_port = 587, username = getenv ''SMTP_USERNAME'',
                 password = getenv ''SMTP_PASSWORD'', to_email = getenv ''EMAIL_TO''\<rparr>\<rparr>,
          development = default_DevelopmentConfig,
          logging = default_LoggingConfig\<rparr>"
proof -
  have ev: "env_value getenv ''ANTHROPIC_API_KEY'' = CStr k"
    "env_value getenv ''GITHUB_TOKEN'' = CStr t" "env_value getenv ''CLAUDE_MODEL'' = CStr m"
    using assms by (simp_all add: env_value_def)
  show ?thesis
    by (simp add: load_from_file_def merge_env_empty)
      (simp add: env_overrides_def ev nested_def loc_of_def required_def defaulted_def
        errors_def Let_def)
qed

end
